theory Spec2Isabelle
  imports Complex_Main "HOL-Library.AList" "HOL-Library.Char_ord" "HOL-Library.List_Lexorder"
begin

section \<open>Python values handled by the meal views\<close>

text \<open>
  The views of \<^verbatim>\<open>meals/views.py\<close> work on decoded JSON: the payloads of the
  recipe service and the body of a request. A decoded value is one of Python's
  \<^verbatim>\<open>None\<close>, \<^verbatim>\<open>bool\<close>, \<^verbatim>\<open>int\<close>, \<^verbatim>\<open>float\<close>, \<^verbatim>\<open>str\<close>, \<^verbatim>\<open>list\<close> and \<^verbatim>\<open>dict\<close>.
  A float is represented by the rational number it denotes (every finite float is one),
  which is all that \<^verbatim>\<open>round\<close>, \<^verbatim>\<open>int\<close> and comparison look at; NaN and the
  infinities, which standard JSON cannot express, are left out. A dict is the list of
  its items in insertion order; a decoded object has pairwise distinct keys. Strings
  are lists of characters, and the case conversions below are those of ASCII letters.
\<close>

datatype json =
    JNull
  | JBool bool
  | JInt int
  | JFloat rat
  | JStr string
  | JArr "json list"
  | JObj "(string \<times> json) list"

text \<open>Exceptions the views can raise on a value of the wrong shape.\<close>

datatype exn = KeyError | TypeError | AttributeError | IndexError | ValueError

text \<open>Truth value of a Python object, as tested by \<^verbatim>\<open>if x\<close> and \<^verbatim>\<open>not x\<close>.\<close>

fun truthy :: "json \<Rightarrow> bool" where
  "truthy JNull = False"
| "truthy (JBool b) = b"
| "truthy (JInt i) = (i \<noteq> 0)"
| "truthy (JFloat r) = (r \<noteq> 0)"
| "truthy (JStr s) = (s \<noteq> [])"
| "truthy (JArr xs) = (xs \<noteq> [])"
| "truthy (JObj kvs) = (kvs \<noteq> [])"

text \<open>\<^verbatim>\<open>x[k]\<close> for a string key \<^verbatim>\<open>k\<close>: only a dict can be indexed by a string.\<close>

fun subscript :: "json \<Rightarrow> string \<Rightarrow> exn + json" where
  "subscript (JObj kvs) k = (case map_of kvs k of None \<Rightarrow> Inl KeyError | Some v \<Rightarrow> Inr v)"
| "subscript _ k = Inl TypeError"

text \<open>\<^verbatim>\<open>x.get(k, d)\<close>: the method exists on dicts only.\<close>

fun get :: "json \<Rightarrow> string \<Rightarrow> json \<Rightarrow> exn + json" where
  "get (JObj kvs) k d = (case map_of kvs k of None \<Rightarrow> Inr d | Some v \<Rightarrow> Inr v)"
| "get _ k d = Inl AttributeError"

text \<open>\<^verbatim>\<open>x.items()\<close>.\<close>

fun items :: "json \<Rightarrow> exn + (string \<times> json) list" where
  "items (JObj kvs) = Inr kvs"
| "items _ = Inl AttributeError"

text \<open>
  The elements a \<^verbatim>\<open>for\<close> loop visits: those of a list, the keys of a dict, the
  characters of a string; anything else is not iterable.
\<close>

fun iter :: "json \<Rightarrow> exn + json list" where
  "iter (JArr xs) = Inr xs"
| "iter (JObj kvs) = Inr (map (\<lambda>kv. JStr (fst kv)) kvs)"
| "iter (JStr s) = Inr (map (\<lambda>c. JStr [c]) s)"
| "iter _ = Inl TypeError"

text \<open>\<^verbatim>\<open>x[0]\<close>: a decoded dict has string keys only, so the key 0 is never found.\<close>

fun index0 :: "json \<Rightarrow> exn + json" where
  "index0 (JArr xs) = (case xs of [] \<Rightarrow> Inl IndexError | x # _ \<Rightarrow> Inr x)"
| "index0 (JStr s) = (case s of [] \<Rightarrow> Inl IndexError | c # _ \<Rightarrow> Inr (JStr [c]))"
| "index0 (JObj kvs) = Inl KeyError"
| "index0 _ = Inl TypeError"

fun starts_with :: "string \<Rightarrow> string \<Rightarrow> bool" where
  "starts_with [] s = True"
| "starts_with (p # ps) [] = False"
| "starts_with (p # ps) (c # cs) = (p = c \<and> starts_with ps cs)"

fun substring :: "string \<Rightarrow> string \<Rightarrow> bool" where
  "substring p [] = (p = [])"
| "substring p (c # cs) = (starts_with p (c # cs) \<or> substring p cs)"

text \<open>
  \<^verbatim>\<open>k in x\<close> for a string \<^verbatim>\<open>k\<close>: a key of a dict, an element of a list, a
  substring of a string; a TypeError on the scalars.
\<close>

fun contains :: "string \<Rightarrow> json \<Rightarrow> exn + bool" where
  "contains k (JObj kvs) = Inr (k \<in> fst ` set kvs)"
| "contains k (JArr xs) = Inr (JStr k \<in> set xs)"
| "contains k (JStr s) = Inr (substring k s)"
| "contains k _ = Inl TypeError"

text \<open>
  Dict keys. Python hashes \<^verbatim>\<open>1\<close>, \<^verbatim>\<open>1.0\<close> and \<^verbatim>\<open>True\<close> to one key; lists and
  dicts are unhashable.
\<close>

datatype key = KNone | KNum rat | KStr string

fun key_of :: "json \<Rightarrow> exn + key" where
  "key_of JNull = Inr KNone"
| "key_of (JBool b) = Inr (KNum (if b then 1 else 0))"
| "key_of (JInt i) = Inr (KNum (of_int i))"
| "key_of (JFloat r) = Inr (KNum r)"
| "key_of (JStr s) = Inr (KStr s)"
| "key_of (JArr xs) = Inl TypeError"
| "key_of (JObj kvs) = Inl TypeError"

text \<open>
  \<^verbatim>\<open>round(x)\<close> with one argument: an int stays, a bool is the int 0 or 1, a float is
  rounded to the nearest integer with ties going to the even one.
\<close>

definition round_half_even :: "rat \<Rightarrow> int" where
  "round_half_even r =
     (let f = \<lfloor>r\<rfloor>; d = r - of_int f
      in if d < 1 / 2 then f else if 1 / 2 < d then f + 1 else if even f then f else f + 1)"

fun py_round :: "json \<Rightarrow> exn + int" where
  "py_round (JInt i) = Inr i"
| "py_round (JBool b) = Inr (if b then 1 else 0)"
| "py_round (JFloat r) = Inr (round_half_even r)"
| "py_round _ = Inl TypeError"

text \<open>\<^verbatim>\<open>str(n)\<close> of an int, in decimal.\<close>

definition digit :: "nat \<Rightarrow> char" where
  "digit n = char_of (48 + n)"

fun str_nat :: "nat \<Rightarrow> string" where
  "str_nat n = (if n < 10 then [digit n] else str_nat (n div 10) @ [digit (n mod 10)])"

definition str_int :: "int \<Rightarrow> string" where
  "str_int i = (if i < 0 then CHR ''-'' # str_nat (nat (- i)) else str_nat (nat i))"

text \<open>\<^verbatim>\<open>s.capitalize()\<close>: the first character in upper case, all the others in lower case.\<close>

definition upper_char :: "char \<Rightarrow> char" where
  "upper_char c = (let n = of_char c :: nat in if 97 \<le> n \<and> n \<le> 122 then char_of (n - 32) else c)"

definition lower_char :: "char \<Rightarrow> char" where
  "lower_char c = (let n = of_char c :: nat in if 65 \<le> n \<and> n \<le> 90 then char_of (n + 32) else c)"

fun capitalize :: "string \<Rightarrow> string" where
  "capitalize [] = []"
| "capitalize (c # cs) = upper_char c # map lower_char cs"


section \<open>The table of planned meals\<close>

text \<open>
  One row of the \<^verbatim>\<open>MealPlan\<close> table. \<open>user\<close> is the owner's id and \<open>pk\<close> the row's
  primary key. The fields a view fills from a payload hold the value it passes to the
  ORM. \<open>protein\<close>, \<open>carbs\<close> and \<open>fats\<close> are \<open>Some\<close> text when a view stored one and
  \<open>None\<close> when the row was created without them. A timestamp is a number of seconds,
  and its calendar date the number of whole days in it; time zones are left out.
\<close>

type_synonym datetime = int
type_synonym date = int

definition date_of :: "datetime \<Rightarrow> date" where
  "date_of t = t div 86400"

record MealPlan =
  pk :: nat
  user :: nat
  day :: json
  meal_type :: json
  meal_name :: json
  spoonacular_id :: json
  calories :: int
  protein :: "string option"
  carbs :: "string option"
  fats :: "string option"
  image_url :: json
  eaten :: bool
  eaten_at :: "datetime option"

text \<open>The table, with the key the database gives to the next row it inserts.\<close>

record db =
  rows :: "MealPlan list"
  next_pk :: nat

text \<open>
  Modelled from the spec: the declaration of the \<^verbatim>\<open>MealPlan\<close> model (\<^verbatim>\<open>models.py\<close>)
  is not among the sources. A row is created not eaten and with no eaten timestamp
  unless the caller says otherwise, which no view does; the database numbers rows with
  keys it has not used before.
\<close>

definition objects_create ::
  "nat \<Rightarrow> json \<Rightarrow> json \<Rightarrow> json \<Rightarrow> json \<Rightarrow> int \<Rightarrow> string option \<Rightarrow> string option \<Rightarrow> string option
     \<Rightarrow> json \<Rightarrow> db \<Rightarrow> db" where
  "objects_create u d mt mn sid cal p c f img s =
     \<lparr>rows = rows s @
        [\<lparr>pk = next_pk s, user = u, day = d, meal_type = mt, meal_name = mn,
          spoonacular_id = sid, calories = cal, protein = p, carbs = c, fats = f,
          image_url = img, eaten = False, eaten_at = None\<rparr>],
      next_pk = Suc (next_pk s)\<rparr>"

text \<open>\<^verbatim>\<open>MealPlan.objects.filter(user=request.user).delete()\<close>.\<close>

definition delete_user :: "nat \<Rightarrow> db \<Rightarrow> db" where
  "delete_user u s = s\<lparr>rows := filter (\<lambda>m. user m \<noteq> u) (rows s)\<rparr>"

text \<open>\<^verbatim>\<open>get_object_or_404(MealPlan, id=meal_id, user=request.user)\<close>; \<open>None\<close> is the 404.\<close>

definition get_object :: "nat \<Rightarrow> nat \<Rightarrow> db \<Rightarrow> MealPlan option" where
  "get_object meal_id u s = find (\<lambda>m. pk m = meal_id \<and> user m = u) (rows s)"

text \<open>\<^verbatim>\<open>meal.save()\<close> of a loaded row: the stored row with that key is overwritten.\<close>

definition save :: "MealPlan \<Rightarrow> db \<Rightarrow> db" where
  "save m s = s\<lparr>rows := map (\<lambda>r. if pk r = pk m then m else r) (rows s)\<rparr>"

section \<open>What a view answers\<close>

datatype message = MsgError string | MsgSuccess string

datatype cell = CStr string | CInt int | CDate date

record progress_context =
  dates_json :: "date list"
  calories_json :: "int list"
  meal_counts_json :: "int list"
  total_calories_week :: int
  total_meals_week :: int
  avg_daily_calories :: int
  best_day :: "date option \<times> int"

datatype page_context = ShoppingList "string list" | Progress progress_context

text \<open>
  \<open>Raised e\<close> is an exception that leaves the view (the framework answers 500),
  \<open>Http404\<close> the one of \<^verbatim>\<open>get_object_or_404\<close>.
\<close>

datatype response =
    Redirect string
  | JsonResponse "(string \<times> json) list"
  | CsvResponse string "cell list list"
  | Render string page_context
  | Http404
  | Raised exn

section \<open>Generating a plan\<close>

text \<open>
  \<^verbatim>\<open>next((n['amount'] for n in nutrition if n['name'] == name), default)\<close> over the
  elements of \<open>nutrition\<close>: the generator stops at the first entry it yields.
\<close>

fun first_amount :: "string \<Rightarrow> json list \<Rightarrow> json \<Rightarrow> exn + json" where
  "first_amount name [] dflt = Inr dflt"
| "first_amount name (n # ns) dflt =
     (case subscript n ''name'' of
        Inl e \<Rightarrow> Inl e
      | Inr v \<Rightarrow> if v = JStr name then subscript n ''amount'' else first_amount name ns dflt)"

definition next_amount :: "string \<Rightarrow> json \<Rightarrow> json \<Rightarrow> exn + json" where
  "next_amount name nutrition dflt =
     (case iter nutrition of Inl e \<Rightarrow> Inl e | Inr ns \<Rightarrow> first_amount name ns dflt)"

text \<open>\<^verbatim>\<open>x.get('nutrition', {}).get('nutrients', [])\<close>.\<close>

definition nutrients :: "json \<Rightarrow> exn + json" where
  "nutrients x =
     (case get x ''nutrition'' (JObj []) of
        Inl e \<Rightarrow> Inl e
      | Inr nu \<Rightarrow> get nu ''nutrients'' (JArr []))"

text \<open>Lines 97 to 101: the four amounts of a recipe, before rounding.\<close>

definition extract_nutrition :: "json \<Rightarrow> exn + (json \<times> json \<times> json \<times> json)" where
  "extract_nutrition meal_details =
     (case nutrients meal_details of
        Inl e \<Rightarrow> Inl e
      | Inr nutrition \<Rightarrow>
     (case next_amount ''Calories'' nutrition (JInt 0) of
        Inl e \<Rightarrow> Inl e
      | Inr cal \<Rightarrow>
     (case next_amount ''Protein'' nutrition (JInt 0) of
        Inl e \<Rightarrow> Inl e
      | Inr pro \<Rightarrow>
     (case next_amount ''Carbohydrates'' nutrition (JInt 0) of
        Inl e \<Rightarrow> Inl e
      | Inr car \<Rightarrow>
     (case next_amount ''Fat'' nutrition (JInt 0) of
        Inl e \<Rightarrow> Inl e
      | Inr fat \<Rightarrow> Inr (cal, pro, car, fat))))))"

text \<open>\<^verbatim>\<open>meal_types_map.get(i, f"Meal {i+1}")\<close>.\<close>

definition meal_types_map :: "(nat \<times> string) list" where
  "meal_types_map = [(0, ''Breakfast''), (1, ''Lunch''), (2, ''Dinner'')]"

definition meal_type_for :: "nat \<Rightarrow> string" where
  "meal_type_for i =
     (case map_of meal_types_map i of Some t \<Rightarrow> t | None \<Rightarrow> ''Meal '' @ str_nat (i + 1))"

text \<open>\<^verbatim>\<open>f"{round(x)}g"\<close>.\<close>

definition grams :: "json \<Rightarrow> exn + string" where
  "grams x = (case py_round x of Inl e \<Rightarrow> Inl e | Inr n \<Rightarrow> Inr (str_int n @ ''g''))"

text \<open>
  The body of the inner loop of step 3 (lines 94 to 114) for the meal \<open>meal_stub\<close> at
  index \<open>i\<close> of \<open>day\<close>: nothing happens when the details map has no entry for the
  meal's id, otherwise one row is created. An exception leaves the table as it is at
  that moment.
\<close>

definition create_meal ::
  "nat \<Rightarrow> (key \<rightharpoonup> json) \<Rightarrow> string \<Rightarrow> nat \<Rightarrow> json \<Rightarrow> db \<Rightarrow> exn option \<times> db" where
  "create_meal u details_map d i meal_stub s =
     (case subscript meal_stub ''id'' of
        Inl e \<Rightarrow> (Some e, s)
      | Inr mid \<Rightarrow>
     (case key_of mid of
        Inl e \<Rightarrow> (Some e, s)
      | Inr k \<Rightarrow>
     (case details_map k of
        None \<Rightarrow> (None, s)
      | Some meal_details \<Rightarrow>
          if \<not> truthy meal_details then (None, s)
          else
     (case extract_nutrition meal_details of
        Inl e \<Rightarrow> (Some e, s)
      | Inr (cal, pro, car, fat) \<Rightarrow>
     (case get meal_details ''title'' (JStr ''Generated Meal'') of
        Inl e \<Rightarrow> (Some e, s)
      | Inr title \<Rightarrow>
     (case get meal_details ''id'' JNull of
        Inl e \<Rightarrow> (Some e, s)
      | Inr sid \<Rightarrow>
     (case py_round cal of
        Inl e \<Rightarrow> (Some e, s)
      | Inr c \<Rightarrow>
     (case grams pro of
        Inl e \<Rightarrow> (Some e, s)
      | Inr p \<Rightarrow>
     (case grams car of
        Inl e \<Rightarrow> (Some e, s)
      | Inr cb \<Rightarrow>
     (case grams fat of
        Inl e \<Rightarrow> (Some e, s)
      | Inr f \<Rightarrow>
     (case get meal_details ''image'' JNull of
        Inl e \<Rightarrow> (Some e, s)
      | Inr img \<Rightarrow>
          (None, objects_create u (JStr (capitalize d)) (JStr (meal_type_for i)) title sid c
                   (Some p) (Some cb) (Some f) img s))))))))))))"

text \<open>\<^verbatim>\<open>for i, meal_stub in enumerate(meals)\<close>, given as the list of its pairs.\<close>

fun create_meals ::
  "nat \<Rightarrow> (key \<rightharpoonup> json) \<Rightarrow> string \<Rightarrow> (nat \<times> json) list \<Rightarrow> db \<Rightarrow> exn option \<times> db" where
  "create_meals u details_map d [] s = (None, s)"
| "create_meals u details_map d ((i, meal_stub) # rest) s =
     (case create_meal u details_map d i meal_stub s of
        (Some e, s') \<Rightarrow> (Some e, s')
      | (None, s') \<Rightarrow> create_meals u details_map d rest s')"

text \<open>\<^verbatim>\<open>for day, meals in meal_structure.items()\<close>.\<close>

fun create_days ::
  "nat \<Rightarrow> (key \<rightharpoonup> json) \<Rightarrow> (string \<times> json list) list \<Rightarrow> db \<Rightarrow> exn option \<times> db" where
  "create_days u details_map [] s = (None, s)"
| "create_days u details_map ((d, meals) # rest) s =
     (case create_meals u details_map d (List.enumerate 0 meals) s of
        (Some e, s') \<Rightarrow> (Some e, s')
      | (None, s') \<Rightarrow> create_days u details_map rest s')"

text \<open>
  Step 2 (lines 67 to 73). The inner loop appends each meal's id to \<open>recipe_ids\<close> and
  the meal to the day's list.
\<close>

fun collect_meals :: "json list \<Rightarrow> json list \<Rightarrow> json list \<Rightarrow> exn + (json list \<times> json list)" where
  "collect_meals [] recipe_ids lst = Inr (recipe_ids, lst)"
| "collect_meals (meal # rest) recipe_ids lst =
     (case subscript meal ''id'' of
        Inl e \<Rightarrow> Inl e
      | Inr mid \<Rightarrow> collect_meals rest (recipe_ids @ [mid]) (lst @ [meal]))"

text \<open>The meals a \<^verbatim>\<open>for meal in data['meals']\<close> visits.\<close>

definition day_meals :: "json \<Rightarrow> exn + json list" where
  "day_meals data = (case subscript data ''meals'' of Inl e \<Rightarrow> Inl e | Inr ms \<Rightarrow> iter ms)"

fun collect_days ::
  "(string \<times> json) list \<Rightarrow> json list \<Rightarrow> (string \<times> json list) list
     \<Rightarrow> exn + (json list \<times> (string \<times> json list) list)" where
  "collect_days [] recipe_ids meal_structure = Inr (recipe_ids, meal_structure)"
| "collect_days ((d, data) # rest) recipe_ids meal_structure =
     (case day_meals data of
        Inl e \<Rightarrow> Inl e
      | Inr meals \<Rightarrow>
     (case collect_meals meals recipe_ids [] of
        Inl e \<Rightarrow> Inl e
      | Inr (recipe_ids', lst) \<Rightarrow>
          collect_days rest recipe_ids' (AList.update d lst meal_structure)))"

text \<open>Lines 67 to 73 as a whole, from \<^verbatim>\<open>plan_data['week'].items()\<close> on.\<close>

definition meal_structure_of :: "json \<Rightarrow> exn + (json list \<times> (string \<times> json list) list)" where
  "meal_structure_of plan_data =
     (case subscript plan_data ''week'' of
        Inl e \<Rightarrow> Inl e
      | Inr week \<Rightarrow>
     (case items week of
        Inl e \<Rightarrow> Inl e
      | Inr week_items \<Rightarrow> collect_days week_items [] []))"

text \<open>\<^verbatim>\<open>{recipe['id']: recipe for recipe in recipes_details}\<close> (line 86).\<close>

fun details_of :: "json list \<Rightarrow> (key \<rightharpoonup> json) \<Rightarrow> exn + (key \<rightharpoonup> json)" where
  "details_of [] m = Inr m"
| "details_of (recipe # rest) m =
     (case subscript recipe ''id'' of
        Inl e \<Rightarrow> Inl e
      | Inr rid \<Rightarrow>
     (case key_of rid of
        Inl e \<Rightarrow> Inl e
      | Inr k \<Rightarrow> details_of rest (m(k \<mapsto> recipe))))"

definition details_map_of :: "json \<Rightarrow> exn + (key \<rightharpoonup> json)" where
  "details_map_of recipes_details =
     (case iter recipes_details of
        Inl e \<Rightarrow> Inl e
      | Inr recipes \<Rightarrow> details_of recipes Map.empty)"

definition plan_error :: string where
  "plan_error = ''Could not generate a meal plan. The API may be unavailable or your daily quota exceeded.''"

definition details_error :: string where
  "details_error = ''Could not fetch nutritional details for the meal plan. Please try again.''"

definition plan_success :: string where
  "plan_success = ''Your new, personalized meal plan has been generated!''"

text \<open>
  \<^verbatim>\<open>generate_meal_plan\<close> for the user \<open>u\<close>. \<open>plan_data\<close> is what the first call of
  \<^verbatim>\<open>_fetch_from_spoonacular\<close> returned (\<open>JNull\<close> is Python's \<^verbatim>\<open>None\<close>, returned when
  the request failed); the calorie target and the diet computed in lines 39 to 57 only
  go into that request. \<open>bulk\<close> is the recipe service answering the bulk request for a
  list of recipe ids, again with \<open>JNull\<close> for a failed request. The view answers with
  a response and the messages it flashed, and leaves a table.
\<close>

definition generate_meal_plan ::
  "nat \<Rightarrow> json \<Rightarrow> (json list \<Rightarrow> json) \<Rightarrow> db \<Rightarrow> (response \<times> message list) \<times> db" where
  "generate_meal_plan u plan_data bulk s =
     (if \<not> truthy plan_data then ((Redirect ''meal_plan'', [MsgError plan_error]), s)
      else
     (case contains ''week'' plan_data of
        Inl e \<Rightarrow> ((Raised e, []), s)
      | Inr False \<Rightarrow> ((Redirect ''meal_plan'', [MsgError plan_error]), s)
      | Inr True \<Rightarrow>
     (case meal_structure_of plan_data of
        Inl e \<Rightarrow> ((Raised e, []), s)
      | Inr (recipe_ids, meal_structure) \<Rightarrow>
          let recipes_details = bulk recipe_ids in
          if \<not> truthy recipes_details then ((Redirect ''meal_plan'', [MsgError details_error]), s)
          else
     (case details_map_of recipes_details of
        Inl e \<Rightarrow> ((Raised e, []), s)
      | Inr details_map \<Rightarrow>
     (case create_days u details_map meal_structure (delete_user u s) of
        (Some e, s') \<Rightarrow> ((Raised e, []), s')
      | (None, s') \<Rightarrow> ((Redirect ''meal_plan'', [MsgSuccess plan_success]), s'))))))"

section \<open>Swapping, ticking and adding a meal\<close>

definition replace_error :: string where
  "replace_error = ''Could not find a replacement meal. Please try again later or check your API quota.''"

definition json_failure :: "string \<Rightarrow> response" where
  "json_failure msg = JsonResponse [(''success'', JBool False), (''error'', JStr msg)]"

text \<open>
  Line 144: whether the search answer is discarded for a random recipe,
  \<^verbatim>\<open>not response_data or not response_data.get('results')\<close>.
\<close>

definition no_results :: "json \<Rightarrow> exn + bool" where
  "no_results response_data =
     (if \<not> truthy response_data then Inr True
      else case get response_data ''results'' JNull of
             Inl e \<Rightarrow> Inl e
           | Inr v \<Rightarrow> Inr (\<not> truthy v))"

text \<open>
  Line 147:
  \<^verbatim>\<open>response_data and (response_data.get('results') or response_data.get('recipes'))\<close>.
\<close>

definition has_recipe :: "json \<Rightarrow> exn + bool" where
  "has_recipe response_data =
     (if \<not> truthy response_data then Inr False
      else case get response_data ''results'' JNull of
             Inl e \<Rightarrow> Inl e
           | Inr a \<Rightarrow>
               if truthy a then Inr True
               else case get response_data ''recipes'' JNull of
                      Inl e \<Rightarrow> Inl e
                    | Inr b \<Rightarrow> Inr (truthy b))"

text \<open>Line 148: \<^verbatim>\<open>response_data.get('results', response_data.get('recipes'))[0]\<close>.\<close>

definition first_recipe :: "json \<Rightarrow> exn + json" where
  "first_recipe response_data =
     (case get response_data ''recipes'' JNull of
        Inl e \<Rightarrow> Inl e
      | Inr b \<Rightarrow>
     (case get response_data ''results'' b of
        Inl e \<Rightarrow> Inl e
      | Inr v \<Rightarrow> index0 v))"

text \<open>
  Lines 150 to 156: the loaded row with the fields of the replacement recipe; the
  calorie value defaults to the one the row has.
\<close>

definition swapped :: "MealPlan \<Rightarrow> json \<Rightarrow> exn + MealPlan" where
  "swapped original_meal new_recipe =
     (case nutrients new_recipe of
        Inl e \<Rightarrow> Inl e
      | Inr nutrition_data \<Rightarrow>
     (case next_amount ''Calories'' nutrition_data (JInt (calories original_meal)) of
        Inl e \<Rightarrow> Inl e
      | Inr cal \<Rightarrow>
     (case subscript new_recipe ''title'' of
        Inl e \<Rightarrow> Inl e
      | Inr title \<Rightarrow>
     (case subscript new_recipe ''id'' of
        Inl e \<Rightarrow> Inl e
      | Inr rid \<Rightarrow>
     (case py_round cal of
        Inl e \<Rightarrow> Inl e
      | Inr c \<Rightarrow>
     (case get new_recipe ''image'' JNull of
        Inl e \<Rightarrow> Inl e
      | Inr img \<Rightarrow>
          Inr (original_meal\<lparr>meal_name := title, spoonacular_id := rid,
                              calories := c, image_url := img\<rparr>)))))))"

text \<open>
  \<^verbatim>\<open>replace_meal\<close>. \<open>verb\<close> is \<^verbatim>\<open>request.method\<close>, here and in the views
  below. \<open>search\<close> is the recipe service answering the search for a calorie target
  and \<open>random\<close> its answer to the request for a random recipe, each \<open>JNull\<close> when the
  request failed.
\<close>

definition replace_meal ::
  "nat \<Rightarrow> string \<Rightarrow> nat \<Rightarrow> (int \<Rightarrow> json) \<Rightarrow> json \<Rightarrow> db \<Rightarrow> response \<times> db" where
  "replace_meal u verb meal_id search random s =
     (if verb = ''POST'' then
        (case get_object meal_id u s of
           None \<Rightarrow> (Http404, s)
         | Some original_meal \<Rightarrow>
        (case no_results (search (calories original_meal)) of
           Inl e \<Rightarrow> (Raised e, s)
         | Inr again \<Rightarrow>
            let response_data = (if again then random else search (calories original_meal)) in
        (case has_recipe response_data of
           Inl e \<Rightarrow> (Raised e, s)
         | Inr False \<Rightarrow> (json_failure replace_error, s)
         | Inr True \<Rightarrow>
        (case first_recipe response_data of
           Inl e \<Rightarrow> (Raised e, s)
         | Inr new_recipe \<Rightarrow>
        (case swapped original_meal new_recipe of
           Inl e \<Rightarrow> (Raised e, s)
         | Inr m \<Rightarrow>
            (JsonResponse [(''success'', JBool True), (''meal_name'', meal_name m),
                           (''calories'', JInt (calories m)), (''image_url'', image_url m)],
             save m s))))))
      else (json_failure replace_error, s))"

text \<open>\<^verbatim>\<open>toggle_meal_eaten\<close>; \<open>now\<close> is \<^verbatim>\<open>timezone.now()\<close>.\<close>

definition toggle_meal_eaten :: "nat \<Rightarrow> string \<Rightarrow> nat \<Rightarrow> datetime \<Rightarrow> db \<Rightarrow> response \<times> db" where
  "toggle_meal_eaten u verb meal_id now s =
     (if verb = ''POST'' then
        (case get_object meal_id u s of
           None \<Rightarrow> (Http404, s)
         | Some meal \<Rightarrow>
            let e = \<not> eaten meal;
                meal' = meal\<lparr>eaten := e, eaten_at := (if e then Some now else None)\<rparr>
            in (JsonResponse [(''success'', JBool True), (''eaten'', JBool (eaten meal'))],
                save meal' s))
      else (json_failure ''Invalid request'', s))"

text \<open>
  \<^verbatim>\<open>int(x)\<close>: a float is cut towards zero; \<open>int_str\<close> is Python's reading of a string
  as an integer, \<open>None\<close> where it raises ValueError.
\<close>

fun py_int :: "(string \<Rightarrow> int option) \<Rightarrow> json \<Rightarrow> exn + int" where
  "py_int int_str (JInt i) = Inr i"
| "py_int int_str (JBool b) = Inr (if b then 1 else 0)"
| "py_int int_str (JFloat r) = Inr (if 0 \<le> r then \<lfloor>r\<rfloor> else \<lceil>r\<rceil>)"
| "py_int int_str (JStr t) = (case int_str t of None \<Rightarrow> Inl ValueError | Some i \<Rightarrow> Inr i)"
| "py_int int_str _ = Inl TypeError"

text \<open>
  Lines 310 to 319, inside the \<^verbatim>\<open>try\<close>: \<open>body\<close> is what \<^verbatim>\<open>json.loads(request.body)\<close>
  gives, the decoded value or the exception it raises.
\<close>

definition added :: "(string \<Rightarrow> int option) \<Rightarrow> nat \<Rightarrow> exn + json \<Rightarrow> db \<Rightarrow> exn + db" where
  "added int_str u body s =
     (case body of
        Inl e \<Rightarrow> Inl e
      | Inr data \<Rightarrow>
     (case subscript data ''day'' of
        Inl e \<Rightarrow> Inl e
      | Inr d \<Rightarrow>
     (case subscript data ''meal_type'' of
        Inl e \<Rightarrow> Inl e
      | Inr mt \<Rightarrow>
     (case subscript data ''name'' of
        Inl e \<Rightarrow> Inl e
      | Inr nm \<Rightarrow>
     (case subscript data ''recipe_id'' of
        Inl e \<Rightarrow> Inl e
      | Inr rid \<Rightarrow>
     (case get data ''calories'' (JInt 0) of
        Inl e \<Rightarrow> Inl e
      | Inr cv \<Rightarrow>
     (case py_int int_str cv of
        Inl e \<Rightarrow> Inl e
      | Inr cal \<Rightarrow>
     (case get data ''image'' JNull of
        Inl e \<Rightarrow> Inl e
      | Inr img \<Rightarrow> Inr (objects_create u d mt nm rid cal None None None img s)))))))))"

text \<open>
  \<^verbatim>\<open>add_meal_to_plan\<close>; \<open>str_e\<close> is the text \<^verbatim>\<open>str(e)\<close> of an exception.
\<close>

definition add_meal_to_plan ::
  "(exn \<Rightarrow> string) \<Rightarrow> (string \<Rightarrow> int option) \<Rightarrow> nat \<Rightarrow> string \<Rightarrow> exn + json \<Rightarrow> db
     \<Rightarrow> response \<times> db" where
  "add_meal_to_plan str_e int_str u verb body s =
     (if verb = ''POST'' then
        (case added int_str u body s of
           Inl e \<Rightarrow> (json_failure (str_e e), s)
         | Inr s' \<Rightarrow> (JsonResponse [(''success'', JBool True)], s'))
      else (json_failure ''Invalid request method'', s))"

section \<open>The grocery list\<close>

text \<open>Line 232, for the ingredients of one recipe: only a string has \<^verbatim>\<open>capitalize\<close>.\<close>

fun add_ingredients :: "json list \<Rightarrow> string set \<Rightarrow> exn + string set" where
  "add_ingredients [] ingredient_list = Inr ingredient_list"
| "add_ingredients (ingredient # rest) ingredient_list =
     (case subscript ingredient ''name'' of
        Inl e \<Rightarrow> Inl e
      | Inr (JStr nm) \<Rightarrow> add_ingredients rest (insert (capitalize nm) ingredient_list)
      | Inr _ \<Rightarrow> Inl AttributeError)"

fun add_recipes :: "json list \<Rightarrow> string set \<Rightarrow> exn + string set" where
  "add_recipes [] ingredient_list = Inr ingredient_list"
| "add_recipes (recipe # rest) ingredient_list =
     (case get recipe ''extendedIngredients'' (JArr []) of
        Inl e \<Rightarrow> Inl e
      | Inr ings \<Rightarrow>
     (case iter ings of
        Inl e \<Rightarrow> Inl e
      | Inr ingredients \<Rightarrow>
     (case add_ingredients ingredients ingredient_list of
        Inl e \<Rightarrow> Inl e
      | Inr ingredient_list' \<Rightarrow> add_recipes rest ingredient_list')))"

text \<open>Lines 218 to 232: the set of ingredient names of the user's planned recipes.\<close>

definition ingredients_of :: "nat \<Rightarrow> (json list \<Rightarrow> json) \<Rightarrow> db \<Rightarrow> exn + string set" where
  "ingredients_of u bulk s =
     (let meals = filter (\<lambda>m. user m = u) (rows s);
          recipe_ids = map spoonacular_id (filter (\<lambda>m. truthy (spoonacular_id m)) meals)
      in if recipe_ids = [] then Inr {}
         else let recipes_data = bulk recipe_ids
              in if \<not> truthy recipes_data then Inr {}
                 else case iter recipes_data of
                        Inl e \<Rightarrow> Inl e
                      | Inr recipes \<Rightarrow> add_recipes recipes {})"

text \<open>
  \<^verbatim>\<open>grocery_list\<close>; \<open>fmt\<close> is \<^verbatim>\<open>request.GET.get('format')\<close>. A CSV answer is the
  list of the rows handed to the writer.
\<close>

definition grocery_list :: "nat \<Rightarrow> string option \<Rightarrow> (json list \<Rightarrow> json) \<Rightarrow> db \<Rightarrow> response" where
  "grocery_list u fmt bulk s =
     (case ingredients_of u bulk s of
        Inl e \<Rightarrow> Raised e
      | Inr ingredient_list \<Rightarrow>
          if fmt = Some ''csv'' then
            CsvResponse ''grocery_list.csv''
              ([CStr ''Ingredient''] # map (\<lambda>item. [CStr item]) (sorted_list_of_set ingredient_list))
          else Render ''meals/grocery_list.html''
                 (ShoppingList (sorted_list_of_set ingredient_list)))"

section \<open>Weekly progress\<close>

text \<open>
  \<open>daily_data\<close> maps each date of the window to its calorie total and meal count. The
  \<^verbatim>\<open>'%Y-%m-%d'\<close> text of a date, which the view uses as key and writes to the report,
  is represented by the date itself, one text standing for one date.
\<close>

type_synonym daily = "(date \<times> int \<times> int) list"

text \<open>
  Lines 251 to 253: the query and its ordering. A row without timestamp does not pass
  the comparison of the filter, so the key it would be ordered by is never asked for.
\<close>

definition in_window :: "nat \<Rightarrow> date \<Rightarrow> MealPlan \<Rightarrow> bool" where
  "in_window u seven_days_ago m =
     (user m = u \<and> eaten m \<and>
      (case eaten_at m of None \<Rightarrow> False | Some t \<Rightarrow> seven_days_ago \<le> date_of t))"

definition date_key :: "MealPlan \<Rightarrow> date" where
  "date_key m = (case eaten_at m of None \<Rightarrow> 0 | Some t \<Rightarrow> date_of t)"

text \<open>Lines 258 to 262.\<close>

fun accumulate :: "MealPlan list \<Rightarrow> daily \<Rightarrow> exn + daily" where
  "accumulate [] daily_data = Inr daily_data"
| "accumulate (meal # rest) daily_data =
     (case eaten_at meal of
        None \<Rightarrow> Inl AttributeError
      | Some t \<Rightarrow>
     (case map_of daily_data (date_of t) of
        None \<Rightarrow> accumulate rest daily_data
      | Some (c, n) \<Rightarrow>
          accumulate rest (AList.update (date_of t) (c + calories meal, n + 1) daily_data)))"

text \<open>\<^verbatim>\<open>[daily_data[d][field] for d in dates]\<close>.\<close>

fun column :: "(int \<times> int \<Rightarrow> int) \<Rightarrow> daily \<Rightarrow> date list \<Rightarrow> exn + int list" where
  "column field daily_data [] = Inr []"
| "column field daily_data (d # ds) =
     (case map_of daily_data d of
        None \<Rightarrow> Inl KeyError
      | Some v \<Rightarrow>
     (case column field daily_data ds of
        Inl e \<Rightarrow> Inl e
      | Inr vs \<Rightarrow> Inr (field v # vs)))"

text \<open>
  Lines 272 to 283, the loop over the days for the one closest to the energy need
  \<open>tdee\<close>; \<open>None\<close> is the initial \<^verbatim>\<open>float('inf')\<close> and the date \<^verbatim>\<open>"N/A"\<close>.
\<close>

fun closest_day ::
  "rat \<Rightarrow> daily \<Rightarrow> rat option \<times> date option \<times> int \<Rightarrow> rat option \<times> date option \<times> int" where
  "closest_day tdee [] acc = acc"
| "closest_day tdee ((d, c, n) # rest) (closest_diff, best_day_date, best_day_calories) =
     (if 0 < c \<and> (case closest_diff of None \<Rightarrow> True | Some x \<Rightarrow> \<bar>of_int c - tdee\<bar> < x)
      then closest_day tdee rest (Some \<bar>of_int c - tdee\<bar>, Some d, c)
      else closest_day tdee rest (closest_diff, best_day_date, best_day_calories))"

text \<open>
  \<^verbatim>\<open>progress_view\<close>; \<open>now\<close> is \<^verbatim>\<open>timezone.now()\<close> and \<open>tdee\<close> what the profile's
  \<^verbatim>\<open>calculate_tdee\<close> gives.
\<close>

definition progress_view :: "nat \<Rightarrow> string option \<Rightarrow> datetime \<Rightarrow> rat \<Rightarrow> db \<Rightarrow> response" where
  "progress_view u fmt now tdee s =
     (let today = date_of now;
          seven_days_ago = today - 6;
          meals_last_7_days = sort_key date_key (filter (in_window u seven_days_ago) (rows s));
          dates = map (\<lambda>i. seven_days_ago + int i) [0..<7]
      in
     (case accumulate meals_last_7_days (map (\<lambda>d. (d, 0, 0)) dates) of
        Inl e \<Rightarrow> Raised e
      | Inr daily_data \<Rightarrow>
     (case column fst daily_data dates of
        Inl e \<Rightarrow> Raised e
      | Inr calories_data \<Rightarrow>
     (case column snd daily_data dates of
        Inl e \<Rightarrow> Raised e
      | Inr meals_data \<Rightarrow>
          let total_calories = sum_list calories_data;
              total_meals = sum_list meals_data;
              days_tracked = length (filter (\<lambda>c. 0 < c) calories_data);
              avg = (if 0 < days_tracked then total_calories div int days_tracked else 0);
              best = (if 0 < days_tracked then closest_day tdee daily_data (None, None, 0)
                      else (None, None, 0))
          in if fmt = Some ''csv'' then
               CsvResponse ''weekly_progress_report.csv''
                 ([CStr ''Date'', CStr ''Calories Consumed'', CStr ''Meals Eaten''] #
                  map (\<lambda>(d, c, n). [CDate d, CInt c, CInt n]) daily_data)
             else Render ''meals/progress.html''
                    (Progress \<lparr>dates_json = dates, calories_json = calories_data,
                               meal_counts_json = meals_data,
                               total_calories_week = total_calories,
                               total_meals_week = total_meals,
                               avg_daily_calories = avg,
                               best_day = (fst (snd best), snd (snd best))\<rparr>)))))"

section \<open>Notions used in the statements\<close>

text \<open>
  The entry of the details map that the loop body looks up for a meal of the plan,
  \<open>None\<close> when there is none (or the meal has no usable id).
\<close>

definition details_for :: "(key \<rightharpoonup> json) \<Rightarrow> json \<Rightarrow> json option" where
  "details_for details_map meal_stub =
     (case subscript meal_stub ''id'' of
        Inl e \<Rightarrow> None
      | Inr mid \<Rightarrow> (case key_of mid of Inl e \<Rightarrow> None | Inr k \<Rightarrow> details_map k))"

text \<open>The numbered meals of a day for which the details map has an entry.\<close>

definition with_details :: "(key \<rightharpoonup> json) \<Rightarrow> (nat \<times> json) list \<Rightarrow> (nat \<times> json) list" where
  "with_details details_map ps = filter (\<lambda>p. details_for details_map (snd p) \<noteq> None) ps"

text \<open>
  The meals of a plan that have details, each with its day key and its position among
  all the meals of that day, in the order of the plan.
\<close>

definition slots :: "(key \<rightharpoonup> json) \<Rightarrow> (string \<times> json list) list \<Rightarrow> (string \<times> nat \<times> json) list" where
  "slots details_map meal_structure =
     concat (map (\<lambda>(d, meals). map (\<lambda>p. (d, p)) (with_details details_map (List.enumerate 0 meals)))
               meal_structure)"

text \<open>The row \<open>m\<close> is the one step 3 stores for the meal at a slot.\<close>

definition row_from :: "nat \<Rightarrow> (key \<rightharpoonup> json) \<Rightarrow> MealPlan \<Rightarrow> string \<times> nat \<times> json \<Rightarrow> bool" where
  "row_from u details_map m slot =
     (case slot of (d, i, meal_stub) \<Rightarrow>
        user m = u \<and> day m = JStr (capitalize d) \<and> meal_type m = JStr (meal_type_for i) \<and>
        \<not> eaten m \<and> eaten_at m = None \<and>
        (\<exists>md cal pro car fat p cb f.
           details_for details_map meal_stub = Some md \<and>
           extract_nutrition md = Inr (cal, pro, car, fat) \<and>
           get md ''title'' (JStr ''Generated Meal'') = Inr (meal_name m) \<and>
           get md ''id'' JNull = Inr (spoonacular_id m) \<and>
           get md ''image'' JNull = Inr (image_url m) \<and>
           py_round cal = Inr (calories m) \<and>
           grams pro = Inr p \<and> protein m = Some p \<and>
           grams car = Inr cb \<and> carbs m = Some cb \<and>
           grams fat = Inr f \<and> fats m = Some f))"





text \<open>The meal slot of the meal at index \<open>i\<close> of a day, as the claim words it.\<close>

definition slot_name :: "nat \<Rightarrow> string" where
  "slot_name i =
     (if i = 0 then ''Breakfast'' else if i = 1 then ''Lunch'' else if i = 2 then ''Dinner''
      else ''Meal '' @ str_nat (i + 1))"

text \<open>A string with its first letter in upper case and the rest as it is.\<close>

fun upper_first :: "string \<Rightarrow> string" where
  "upper_first [] = []"
| "upper_first (c # cs) = upper_char c # cs"

text \<open>Every row has an eaten timestamp exactly when it is flagged as eaten.\<close>

definition eaten_consistent :: "db \<Rightarrow> bool" where
  "eaten_consistent s = list_all (\<lambda>m. (eaten_at m \<noteq> None) = eaten m) (rows s)"

text \<open>The user's meals flagged eaten whose eaten timestamp falls on the date \<open>d\<close>.\<close>

definition eaten_on :: "nat \<Rightarrow> date \<Rightarrow> MealPlan list \<Rightarrow> MealPlan list" where
  "eaten_on u d ms =
     filter (\<lambda>m. user m = u \<and> eaten m \<and>
                 (case eaten_at m of None \<Rightarrow> False | Some t \<Rightarrow> date_of t = d)) ms"

text \<open>The seven calendar dates that end with the date of \<open>now\<close>.\<close>

definition window :: "datetime \<Rightarrow> date list" where
  "window now = map (\<lambda>i. date_of now - 6 + int i) [0..<7]"

text \<open>For each date of the window, the calories and the number of the meals eaten on it.\<close>

definition daily_totals :: "nat \<Rightarrow> datetime \<Rightarrow> MealPlan list \<Rightarrow> daily" where
  "daily_totals u now ms =
     map (\<lambda>d. (d, sum_list (map calories (eaten_on u d ms)), int (length (eaten_on u d ms))))
       (window now)"

text \<open>The names of the ingredients in a list of ingredients, and of those of a recipe.\<close>

definition names_in :: "json list \<Rightarrow> string list" where
  "names_in ingredients =
     concat (map (\<lambda>i. case subscript i ''name'' of Inr (JStr nm) \<Rightarrow> [nm] | _ \<Rightarrow> []) ingredients)"

definition ingredient_names :: "json \<Rightarrow> string list" where
  "ingredient_names recipe =
     (case get recipe ''extendedIngredients'' (JArr []) of
        Inl e \<Rightarrow> []
      | Inr ings \<Rightarrow> (case iter ings of Inl e \<Rightarrow> [] | Inr ingredients \<Rightarrow> names_in ingredients))"

text \<open>
  The recipes the service returns for the ids of the user's planned meals; none when
  the user has no recipe id or the request fails.
\<close>

definition planned_recipes :: "nat \<Rightarrow> (json list \<Rightarrow> json) \<Rightarrow> db \<Rightarrow> json list" where
  "planned_recipes u bulk s =
     (let recipe_ids =
            map spoonacular_id
              (filter (\<lambda>m. truthy (spoonacular_id m)) (filter (\<lambda>m. user m = u) (rows s)))
      in if recipe_ids = [] \<or> \<not> truthy (bulk recipe_ids) then []
         else case iter (bulk recipe_ids) of Inl e \<Rightarrow> [] | Inr recipes \<Rightarrow> recipes)"

text \<open>
  An answer of the recipe service that offers no search results: nothing truthy, or
  an object without a truthy \<^verbatim>\<open>results\<close> entry.
\<close>

definition lacks_results :: "json \<Rightarrow> bool" where
  "lacks_results response_data =
     (case response_data of
        JObj kvs \<Rightarrow> (case map_of kvs ''results'' of None \<Rightarrow> True | Some v \<Rightarrow> \<not> truthy v)
      | _ \<Rightarrow> \<not> truthy response_data)"

text \<open>An answer that offers neither search results nor random recipes.\<close>

definition lacks_recipe :: "json \<Rightarrow> bool" where
  "lacks_recipe response_data =
     (case response_data of
        JObj kvs \<Rightarrow>
          (case map_of kvs ''results'' of None \<Rightarrow> True | Some v \<Rightarrow> \<not> truthy v) \<and>
          (case map_of kvs ''recipes'' of None \<Rightarrow> True | Some v \<Rightarrow> \<not> truthy v)
      | _ \<Rightarrow> \<not> truthy response_data)"

section \<open>Example data\<close>

text \<open>
  A plan of two meals on one day, a details service that knows the second recipe only,
  and a table with rows of two users.
\<close>

definition example_plan :: json where
  "example_plan =
     JObj [(''week'', JObj [(''monday'', JObj [(''meals'',
        JArr [JObj [(''id'', JInt 1), (''title'', JStr ''Porridge'')],
              JObj [(''id'', JInt 2), (''title'', JStr ''Soup'')]])])])]"

definition example_details :: "json list \<Rightarrow> json" where
  "example_details ids =
     JArr [JObj [(''id'', JInt 2), (''title'', JStr ''Soup''),
                 (''nutrition'', JObj [(''nutrients'',
                    JArr [JObj [(''name'', JStr ''Calories''), (''amount'', JFloat (5 / 2))],
                          JObj [(''name'', JStr ''Fat''), (''amount'', JInt 7)]])])]]"

definition example_row :: MealPlan where
  "example_row =
     \<lparr>pk = 0, user = 1, day = JStr ''Monday'', meal_type = JStr ''Lunch'',
      meal_name = JStr ''Stew'', spoonacular_id = JInt 9, calories = 300,
      protein = Some ''10g'', carbs = Some ''20g'', fats = Some ''5g'',
      image_url = JNull, eaten = True, eaten_at = Some 864005\<rparr>"

definition example_db :: db where
  "example_db =
     \<lparr>rows = [example_row,
              example_row\<lparr>pk := 1, user := 2\<rparr>,
              example_row\<lparr>pk := 2, calories := 200, eaten := False, eaten_at := None\<rparr>],
      next_pk = 3\<rparr>"

text \<open>A recipe without a calorie entry, and a plan whose day key has capitals inside.\<close>

definition example_recipe :: json where
  "example_recipe =
     JObj [(''id'', JInt 5), (''title'', JStr ''Salad''),
           (''nutrition'', JObj [(''nutrients'',
              JArr [JObj [(''name'', JStr ''Fat''), (''amount'', JInt 7)]])])]"

definition odd_case_plan :: json where
  "odd_case_plan =
     JObj [(''week'', JObj [(''mONDAY'', JObj [(''meals'', JArr [JObj [(''id'', JInt 2)]])])])]"

text \<open>The days of the example plan, and the table after generating it for user 1.\<close>

definition example_week :: "(string \<times> json) list" where
  "example_week =
     [(''monday'', JObj [(''meals'',
        JArr [JObj [(''id'', JInt 1), (''title'', JStr ''Porridge'')],
              JObj [(''id'', JInt 2), (''title'', JStr ''Soup'')]])])]"

definition example_after :: db where
  "example_after =
     \<lparr>rows = [example_row\<lparr>pk := 1, user := 2\<rparr>,
              \<lparr>pk = 3, user = 1, day = JStr ''Monday'', meal_type = JStr ''Lunch'',
               meal_name = JStr ''Soup'', spoonacular_id = JInt 2, calories = 2,
               protein = Some ''0g'', carbs = Some ''0g'', fats = Some ''7g'',
               image_url = JNull, eaten = False, eaten_at = None\<rparr>],
      next_pk = 4\<rparr>"

text \<open>A search that fails, and the answer to the request for a random recipe.\<close>

definition example_search :: "int \<Rightarrow> json" where
  "example_search target = JNull"

definition example_random :: json where
  "example_random = JObj [(''recipes'', JArr [example_recipe])]"

definition example_swapped :: db where
  "example_swapped =
     \<lparr>rows = [example_row\<lparr>meal_name := JStr ''Salad'', spoonacular_id := JInt 5\<rparr>,
              example_row\<lparr>pk := 1, user := 2\<rparr>,
              example_row\<lparr>pk := 2, calories := 200, eaten := False, eaten_at := None\<rparr>],
      next_pk = 3\<rparr>"

text \<open>The texts of exceptions and the reading of integers used in the examples.\<close>

definition example_str_e :: "exn \<Rightarrow> string" where
  "example_str_e e = ''error''"

definition example_int_str :: "string \<Rightarrow> int option" where
  "example_int_str t = (if t = ''250'' then Some 250 else None)"

definition example_body :: "exn + json" where
  "example_body =
     Inr (JObj [(''day'', JStr ''Monday''), (''meal_type'', JStr ''Snack''),
                (''name'', JStr ''Apple''), (''recipe_id'', JInt 11),
                (''calories'', JStr ''250'')])"

text \<open>A moment on the day after the example meal was eaten.\<close>

definition example_now :: datetime where
  "example_now = 950400"

text \<open>A details service that lists ingredients.\<close>

definition example_ingredients :: "json list \<Rightarrow> json" where
  "example_ingredients ids =
     JArr [JObj [(''id'', JInt 9), (''extendedIngredients'',
             JArr [JObj [(''name'', JStr ''salt'')], JObj [(''name'', JStr ''apple'')]])],
           JObj [(''id'', JInt 9), (''extendedIngredients'',
             JArr [JObj [(''name'', JStr ''Salt'')]])]]"

text \<open>The table after the example meal has been added for user 1.\<close>

definition example_added :: db where
  "example_added =
     \<lparr>rows = rows example_db @
        [\<lparr>pk = 3, user = 1, day = JStr ''Monday'', meal_type = JStr ''Snack'',
          meal_name = JStr ''Apple'', spoonacular_id = JInt 11, calories = 250,
          protein = None, carbs = None, fats = None, image_url = JNull,
          eaten = False, eaten_at = None\<rparr>],
      next_pk = 4\<rparr>"

section \<open>Properties of plan generation\<close>

lemma create_meal_result:
  assumes "create_meal u dm d i stub s = (r, s')"
  shows "(s' = s) \<or>
         (r = None \<and> (\<exists>mid k md cal pro car fat title sid c p cb f img.
            subscript stub ''id'' = Inr mid \<and> key_of mid = Inr k \<and> dm k = Some md \<and> truthy md \<and>
            extract_nutrition md = Inr (cal, pro, car, fat) \<and>
            get md ''title'' (JStr ''Generated Meal'') = Inr title \<and>
            get md ''id'' JNull = Inr sid \<and> py_round cal = Inr c \<and>
            grams pro = Inr p \<and> grams car = Inr cb \<and> grams fat = Inr f \<and>
            get md ''image'' JNull = Inr img \<and>
            s' = objects_create u (JStr (capitalize d)) (JStr (meal_type_for i)) title sid c
                   (Some p) (Some cb) (Some f) img s))"
  using assms unfolding create_meal_def
  by (auto split: sum.splits option.splits if_splits prod.splits)

lemma create_meal_grows:
  assumes "create_meal u dm d i stub s = (r, s')"
  shows "\<exists>new. rows s' = rows s @ new \<and> next_pk s' = next_pk s + length new \<and>
           (\<forall>m\<in>set new. user m = u \<and> next_pk s \<le> pk m \<and> \<not> eaten m \<and> eaten_at m = None)"
  using create_meal_result[OF assms]
proof
  assume "s' = s"
  then show ?thesis by (intro exI[of _ "[]"]) simp
next
  assume "r = None \<and> (\<exists>mid k md cal pro car fat title sid c p cb f img.
            subscript stub ''id'' = Inr mid \<and> key_of mid = Inr k \<and> dm k = Some md \<and> truthy md \<and>
            extract_nutrition md = Inr (cal, pro, car, fat) \<and>
            get md ''title'' (JStr ''Generated Meal'') = Inr title \<and>
            get md ''id'' JNull = Inr sid \<and> py_round cal = Inr c \<and>
            grams pro = Inr p \<and> grams car = Inr cb \<and> grams fat = Inr f \<and>
            get md ''image'' JNull = Inr img \<and>
            s' = objects_create u (JStr (capitalize d)) (JStr (meal_type_for i)) title sid c
                   (Some p) (Some cb) (Some f) img s)"
  then obtain title sid c p cb f img where
    "s' = objects_create u (JStr (capitalize d)) (JStr (meal_type_for i)) title sid c
                   (Some p) (Some cb) (Some f) img s" by blast
  then show ?thesis by (auto simp: objects_create_def)
qed

lemma create_meals_grows:
  "create_meals u dm d ps s = (r, s') \<Longrightarrow>
   \<exists>new. rows s' = rows s @ new \<and> next_pk s' = next_pk s + length new \<and>
           (\<forall>m\<in>set new. user m = u \<and> next_pk s \<le> pk m \<and> \<not> eaten m \<and> eaten_at m = None)"
proof (induction ps arbitrary: s)
  case Nil
  then show ?case by (intro exI[of _ "[]"]) simp
next
  case (Cons p ps)
  obtain i stub where p: "p = (i, stub)" by (cases p)
  obtain r1 s1 where c1: "create_meal u dm d i stub s = (r1, s1)" by (cases "create_meal u dm d i stub s")
  from create_meal_grows[OF c1] obtain n1 where
    n1: "rows s1 = rows s @ n1" "next_pk s1 = next_pk s + length n1"
        "\<forall>m\<in>set n1. user m = u \<and> next_pk s \<le> pk m \<and> \<not> eaten m \<and> eaten_at m = None" by blast
  show ?case
  proof (cases r1)
    case (Some e)
    with Cons.prems p c1 have "s' = s1" by simp
    with n1 show ?thesis by blast
  next
    case None
    with Cons.prems p c1 have "create_meals u dm d ps s1 = (r, s')" by simp
    from Cons.IH[OF this] obtain n2 where
      n2: "rows s' = rows s1 @ n2" "next_pk s' = next_pk s1 + length n2"
          "\<forall>m\<in>set n2. user m = u \<and> next_pk s1 \<le> pk m \<and> \<not> eaten m \<and> eaten_at m = None" by blast
    show ?thesis
      using n1 n2 by (intro exI[of _ "n1 @ n2"]) auto
  qed
qed

lemma create_days_grows:
  "create_days u dm ms s = (r, s') \<Longrightarrow>
   \<exists>new. rows s' = rows s @ new \<and> next_pk s' = next_pk s + length new \<and>
           (\<forall>m\<in>set new. user m = u \<and> next_pk s \<le> pk m \<and> \<not> eaten m \<and> eaten_at m = None)"
proof (induction ms arbitrary: s)
  case Nil
  then show ?case by (intro exI[of _ "[]"]) simp
next
  case (Cons p ms)
  obtain d meals where p: "p = (d, meals)" by (cases p)
  obtain r1 s1 where c1: "create_meals u dm d (List.enumerate 0 meals) s = (r1, s1)"
    by (cases "create_meals u dm d (List.enumerate 0 meals) s")
  from create_meals_grows[OF c1] obtain n1 where
    n1: "rows s1 = rows s @ n1" "next_pk s1 = next_pk s + length n1"
        "\<forall>m\<in>set n1. user m = u \<and> next_pk s \<le> pk m \<and> \<not> eaten m \<and> eaten_at m = None" by blast
  show ?case
  proof (cases r1)
    case (Some e)
    with Cons.prems p c1 have "s' = s1" by simp
    with n1 show ?thesis by blast
  next
    case None
    with Cons.prems p c1 have "create_days u dm ms s1 = (r, s')" by simp
    from Cons.IH[OF this] obtain n2 where
      n2: "rows s' = rows s1 @ n2" "next_pk s' = next_pk s1 + length n2"
          "\<forall>m\<in>set n2. user m = u \<and> next_pk s1 \<le> pk m \<and> \<not> eaten m \<and> eaten_at m = None" by blast
    show ?thesis
      using n1 n2 by (intro exI[of _ "n1 @ n2"]) auto
  qed
qed

lemma create_meal_slot:
  assumes "create_meal u dm d i stub s = (None, s')" and "\<forall>k v. dm k = Some v \<longrightarrow> truthy v"
  shows "(details_for dm stub = None \<and> s' = s) \<or>
         (details_for dm stub \<noteq> None \<and> (\<exists>m. rows s' = rows s @ [m] \<and> row_from u dm m (d, i, stub)))"
  using assms unfolding create_meal_def details_for_def
  by (auto split: sum.splits option.splits if_splits prod.splits
           simp: objects_create_def row_from_def details_for_def)

lemma create_meals_slots:
  "create_meals u dm d ps s = (None, s') \<Longrightarrow> \<forall>k v. dm k = Some v \<longrightarrow> truthy v \<Longrightarrow>
   \<exists>new. rows s' = rows s @ new \<and>
         list_all2 (row_from u dm) new (map (\<lambda>p. (d, p)) (with_details dm ps))"
proof (induction ps arbitrary: s)
  case Nil
  then show ?case by (simp add: with_details_def)
next
  case (Cons p ps)
  obtain i stub where p: "p = (i, stub)" by (cases p)
  obtain r1 s1 where c1: "create_meal u dm d i stub s = (r1, s1)" by (cases "create_meal u dm d i stub s")
  have r1: "r1 = None" using Cons.prems(1) p c1 by (cases r1) auto
  with Cons.prems p c1 have rest: "create_meals u dm d ps s1 = (None, s')" by simp
  from Cons.IH[OF rest Cons.prems(2)] obtain n2 where
    n2: "rows s' = rows s1 @ n2" "list_all2 (row_from u dm) n2 (map (\<lambda>p. (d, p)) (with_details dm ps))"
    by blast
  from create_meal_slot[OF c1[unfolded r1] Cons.prems(2)] show ?case
  proof
    assume "details_for dm stub = None \<and> s1 = s"
    with n2 p show ?thesis by (simp add: with_details_def)
  next
    assume "details_for dm stub \<noteq> None \<and> (\<exists>m. rows s1 = rows s @ [m] \<and> row_from u dm m (d, i, stub))"
    then obtain m where m: "details_for dm stub \<noteq> None" "rows s1 = rows s @ [m]" "row_from u dm m (d, i, stub)"
      by blast
    show ?thesis
      using m n2 p by (intro exI[of _ "m # n2"]) (simp add: with_details_def)
  qed
qed

lemma create_days_slots:
  "create_days u dm ms s = (None, s') \<Longrightarrow> \<forall>k v. dm k = Some v \<longrightarrow> truthy v \<Longrightarrow>
   \<exists>new. rows s' = rows s @ new \<and> list_all2 (row_from u dm) new (slots dm ms)"
proof (induction ms arbitrary: s)
  case Nil
  then show ?case by (simp add: slots_def)
next
  case (Cons p ms)
  obtain d meals where p: "p = (d, meals)" by (cases p)
  obtain r1 s1 where c1: "create_meals u dm d (List.enumerate 0 meals) s = (r1, s1)"
    by (cases "create_meals u dm d (List.enumerate 0 meals) s")
  have r1: "r1 = None" using Cons.prems(1) p c1 by (cases r1) auto
  with Cons.prems p c1 have rest: "create_days u dm ms s1 = (None, s')" by simp
  from Cons.IH[OF rest Cons.prems(2)] obtain n2 where
    n2: "rows s' = rows s1 @ n2" "list_all2 (row_from u dm) n2 (slots dm ms)" by blast
  from create_meals_slots[OF c1[unfolded r1] Cons.prems(2)] obtain n1 where
    n1: "rows s1 = rows s @ n1"
        "list_all2 (row_from u dm) n1 (map (\<lambda>p. (d, p)) (with_details dm (List.enumerate 0 meals)))"
    by blast
  have "list_all2 (row_from u dm) (n1 @ n2) (slots dm (p # ms))"
    using n1(2) n2(2) p by (simp add: slots_def list_all2_appendI)
  with n1 n2 show ?case by (intro exI[of _ "n1 @ n2"]) simp
qed

lemma subscript_truthy: "subscript x k = Inr v \<Longrightarrow> truthy x"
  by (cases x) (auto split: option.splits)

lemma details_of_truthy:
  "details_of recipes m = Inr dm \<Longrightarrow> \<forall>k v. m k = Some v \<longrightarrow> truthy v \<Longrightarrow>
   \<forall>k v. dm k = Some v \<longrightarrow> truthy v"
proof (induction recipes arbitrary: m)
  case Nil
  then show ?case by simp
next
  case (Cons r rs)
  from Cons.prems(1) obtain rid k where
    rk: "subscript r ''id'' = Inr rid" "key_of rid = Inr k" "details_of rs (m(k \<mapsto> r)) = Inr dm"
    by (auto split: sum.splits)
  have "\<forall>k' v. (m(k \<mapsto> r)) k' = Some v \<longrightarrow> truthy v"
    using Cons.prems(2) subscript_truthy[OF rk(1)] by auto
  from Cons.IH[OF rk(3) this] show ?case .
qed

lemma details_map_of_truthy:
  "details_map_of recipes_details = Inr dm \<Longrightarrow> \<forall>k v. dm k = Some v \<longrightarrow> truthy v"
  unfolding details_map_of_def
  by (auto split: sum.splits dest!: details_of_truthy)

lemma generate_success:
  assumes "generate_meal_plan u plan_data bulk s = ((Redirect ''meal_plan'', [MsgSuccess msg]), s')"
  shows "\<exists>recipe_ids meal_structure details_map.
           truthy plan_data \<and> contains ''week'' plan_data = Inr True \<and>
           meal_structure_of plan_data = Inr (recipe_ids, meal_structure) \<and>
           truthy (bulk recipe_ids) \<and>
           details_map_of (bulk recipe_ids) = Inr details_map \<and>
           create_days u details_map meal_structure (delete_user u s) = (None, s')"
  using assms unfolding generate_meal_plan_def
  by (auto split: sum.splits option.splits if_splits prod.splits bool.splits simp: Let_def)

text \<open>
  Claim C1. Whenever \<^verbatim>\<open>generate_meal_plan\<close> ends with its success message, the
  table consists of the rows that other users had before, unchanged and in their order,
  followed by rows created in this run, each of which belongs to the requesting user
  and carries a key the table had not given out before. The rows of the other users
  are therefore as they were, and, keys in use being below the next key, none of the
  rows the user had before is left: they were deleted before the first row was created.
\<close>

theorem generate_replaces_rows:
  assumes "generate_meal_plan u plan_data bulk s =
             ((Redirect ''meal_plan'', [MsgSuccess plan_success]), s')"
  shows "\<exists>new. rows s' = filter (\<lambda>m. user m \<noteq> u) (rows s) @ new \<and>
               (\<forall>m\<in>set new. user m = u \<and> next_pk s \<le> pk m) \<and>
               filter (\<lambda>m. user m \<noteq> u) (rows s') = filter (\<lambda>m. user m \<noteq> u) (rows s) \<and>
               ((\<forall>m\<in>set (rows s). pk m < next_pk s) \<longrightarrow>
                (\<forall>m\<in>set (rows s). user m = u \<longrightarrow> m \<notin> set (rows s')))"
proof -
  from generate_success[OF assms] obtain meal_structure details_map where
    "create_days u details_map meal_structure (delete_user u s) = (None, s')" by blast
  from create_days_grows[OF this] obtain new where
    n: "rows s' = filter (\<lambda>m. user m \<noteq> u) (rows s) @ new"
       "\<forall>m\<in>set new. user m = u \<and> next_pk s \<le> pk m"
    by (auto simp: delete_user_def)
  have others: "filter (\<lambda>m. user m \<noteq> u) (rows s') = filter (\<lambda>m. user m \<noteq> u) (rows s)"
  proof -
    have "filter (\<lambda>m. user m \<noteq> u) new = []" using n(2) by (simp add: filter_empty_conv)
    with n(1) show ?thesis by simp
  qed
  have gone: "(\<forall>m\<in>set (rows s). pk m < next_pk s) \<longrightarrow>
              (\<forall>m\<in>set (rows s). user m = u \<longrightarrow> m \<notin> set (rows s'))"
  proof (intro impI ballI)
    fix m
    assume wf: "\<forall>m\<in>set (rows s). pk m < next_pk s" and m: "m \<in> set (rows s)" "user m = u"
    from wf m(1) have "pk m < next_pk s" by blast
    with n(2) have "m \<notin> set new" by auto
    with n(1) m(2) show "m \<notin> set (rows s')" by simp
  qed
  from n others gone show ?thesis by blast
qed

theorem generate_replaces_rows_witness:
  "generate_meal_plan 1 example_plan example_details example_db =
     ((Redirect ''meal_plan'', [MsgSuccess plan_success]), example_after) \<and>
   list_all (\<lambda>m. pk m < next_pk example_db) (rows example_db) \<and>
   (\<exists>new. rows example_after = filter (\<lambda>m. user m \<noteq> 1) (rows example_db) @ new \<and>
          (\<forall>m\<in>set new. user m = 1 \<and> next_pk example_db \<le> pk m) \<and>
          filter (\<lambda>m. user m \<noteq> 1) (rows example_after) =
            filter (\<lambda>m. user m \<noteq> 1) (rows example_db)) \<and>
   filter (\<lambda>m. user m = 1 \<and> m \<in> set (rows example_after)) (rows example_db) = []"
proof -
  have h: "generate_meal_plan 1 example_plan example_details example_db =
     ((Redirect ''meal_plan'', [MsgSuccess plan_success]), example_after)"
    by code_simp
  have wf: "list_all (\<lambda>m. pk m < next_pk example_db) (rows example_db)"
    by (simp add: example_db_def example_row_def)
  from generate_replaces_rows[OF h] obtain new where
    n: "rows example_after = filter (\<lambda>m. user m \<noteq> 1) (rows example_db) @ new"
       "\<forall>m\<in>set new. user m = 1 \<and> next_pk example_db \<le> pk m"
       "filter (\<lambda>m. user m \<noteq> 1) (rows example_after) =
          filter (\<lambda>m. user m \<noteq> 1) (rows example_db)"
       "(\<forall>m\<in>set (rows example_db). pk m < next_pk example_db) \<longrightarrow>
        (\<forall>m\<in>set (rows example_db). user m = 1 \<longrightarrow> m \<notin> set (rows example_after))"
    by blast
  from n(4) wf have "\<forall>m\<in>set (rows example_db). user m = 1 \<longrightarrow> m \<notin> set (rows example_after)"
    by (simp add: list_all_iff)
  then have gone: "filter (\<lambda>m. user m = 1 \<and> m \<in> set (rows example_after)) (rows example_db) = []"
    by (simp add: filter_empty_conv)
  from n(1,2,3) have ex: "\<exists>new. rows example_after = filter (\<lambda>m. user m \<noteq> 1) (rows example_db) @ new \<and>
          (\<forall>m\<in>set new. user m = 1 \<and> next_pk example_db \<le> pk m) \<and>
          filter (\<lambda>m. user m \<noteq> 1) (rows example_after) =
            filter (\<lambda>m. user m \<noteq> 1) (rows example_db)"
    by blast
  show ?thesis
    by (intro conjI) (rule h wf ex gone)+
qed

text \<open>
  Claim C2. When the plan request fails (\<^verbatim>\<open>None\<close>) or its payload is an object
  without the key \<^verbatim>\<open>week\<close>, and when the plan was read and the bulk request for its
  recipe ids fails, the view flashes the error message of that step, redirects to the
  plan page, and the table is exactly what it was.
\<close>

theorem generate_fetch_failure:
  "((plan_data = JNull \<or> (\<exists>kvs. plan_data = JObj kvs \<and> ''week'' \<notin> fst ` set kvs)) \<longrightarrow>
      generate_meal_plan u plan_data bulk s = ((Redirect ''meal_plan'', [MsgError plan_error]), s)) \<and>
   (contains ''week'' plan_data = Inr True \<and>
    meal_structure_of plan_data = Inr (recipe_ids, meal_structure) \<and>
    bulk recipe_ids = JNull \<longrightarrow>
      generate_meal_plan u plan_data bulk s = ((Redirect ''meal_plan'', [MsgError details_error]), s))"
proof (intro conjI impI)
  assume "plan_data = JNull \<or> (\<exists>kvs. plan_data = JObj kvs \<and> ''week'' \<notin> fst ` set kvs)"
  then show "generate_meal_plan u plan_data bulk s = ((Redirect ''meal_plan'', [MsgError plan_error]), s)"
    by (auto simp: generate_meal_plan_def)
next
  assume a: "contains ''week'' plan_data = Inr True \<and>
    meal_structure_of plan_data = Inr (recipe_ids, meal_structure) \<and> bulk recipe_ids = JNull"
  then have "truthy plan_data"
    by (cases plan_data) (auto simp: meal_structure_of_def)
  with a show "generate_meal_plan u plan_data bulk s = ((Redirect ''meal_plan'', [MsgError details_error]), s)"
    by (simp add: generate_meal_plan_def)
qed

theorem generate_fetch_failure_witness:
  "generate_meal_plan 1 JNull example_details example_db =
     ((Redirect ''meal_plan'', [MsgError plan_error]), example_db) \<and>
   generate_meal_plan 1 (JObj [(''status'', JStr ''failure'')]) example_details example_db =
     ((Redirect ''meal_plan'', [MsgError plan_error]), example_db) \<and>
   generate_meal_plan 1 example_plan (\<lambda>ids. JNull) example_db =
     ((Redirect ''meal_plan'', [MsgError details_error]), example_db)"
proof -
  have 1: "generate_meal_plan 1 JNull example_details example_db =
     ((Redirect ''meal_plan'', [MsgError plan_error]), example_db)"
    using generate_fetch_failure[where plan_data = JNull and bulk = example_details and u = 1
        and s = example_db] by simp
  have 2: "generate_meal_plan 1 (JObj [(''status'', JStr ''failure'')]) example_details example_db =
     ((Redirect ''meal_plan'', [MsgError plan_error]), example_db)"
    using generate_fetch_failure[where plan_data = "JObj [(''status'', JStr ''failure'')]"
        and bulk = example_details and u = 1 and s = example_db]
    by simp
  have c: "contains ''week'' example_plan = Inr True" by (simp add: example_plan_def)
  have m: "meal_structure_of example_plan =
             Inr ([JInt 1, JInt 2],
                  [(''monday'', [JObj [(''id'', JInt 1), (''title'', JStr ''Porridge'')],
                                 JObj [(''id'', JInt 2), (''title'', JStr ''Soup'')]])])"
    by (simp add: example_plan_def meal_structure_of_def day_meals_def)
  have 3: "generate_meal_plan 1 example_plan (\<lambda>ids. JNull) example_db =
     ((Redirect ''meal_plan'', [MsgError details_error]), example_db)"
    using generate_fetch_failure[where plan_data = example_plan and bulk = "\<lambda>ids. JNull" and u = 1
        and s = example_db] c m by simp
  from 1 2 3 show ?thesis by simp
qed

section \<open>Nutrient extraction\<close>




section \<open>Slots, day labels and missing details\<close>

lemma meal_type_for_slot_name: "meal_type_for i = slot_name i"
proof -
  consider "i = 0" | "i = 1" | "i = 2" | "3 \<le> i" by linarith
  then show ?thesis
    by cases (auto simp: meal_type_for_def slot_name_def meal_types_map_def)
qed

lemma update_fresh: "k \<notin> fst ` set al \<Longrightarrow> AList.update k v al = al @ [(k, v)]"
  by (induction al) auto

lemma collect_meals_list:
  "collect_meals meals ids acc = Inr (ids', lst) \<Longrightarrow> lst = acc @ meals"
proof (induction meals arbitrary: ids acc)
  case Nil
  then show ?case by simp
next
  case (Cons meal meals)
  from Cons.prems obtain mid where
    "collect_meals meals (ids @ [mid]) (acc @ [meal]) = Inr (ids', lst)"
    by (auto split: sum.splits)
  from Cons.IH[OF this] show ?case by simp
qed

lemma collect_days_structure:
  "collect_days week ids ms0 = Inr (ids', ms) \<Longrightarrow> distinct (map fst week) \<Longrightarrow>
   fst ` set week \<inter> fst ` set ms0 = {} \<Longrightarrow>
   \<exists>ms1. ms = ms0 @ ms1 \<and>
         list_all2 (\<lambda>p q. fst q = fst p \<and> day_meals (snd p) = Inr (snd q)) week ms1"
proof (induction week arbitrary: ids ms0)
  case Nil
  then show ?case by simp
next
  case (Cons p week)
  obtain d data where p: "p = (d, data)" by (cases p)
  from Cons.prems(1) p obtain meals ids1 lst where
    st: "day_meals data = Inr meals" "collect_meals meals ids [] = Inr (ids1, lst)"
        "collect_days week ids1 (AList.update d lst ms0) = Inr (ids', ms)"
    by (auto split: sum.splits)
  have lst: "lst = meals" using collect_meals_list[OF st(2)] by simp
  have fresh: "d \<notin> fst ` set ms0" using Cons.prems(3) p by auto
  have upd: "AList.update d lst ms0 = ms0 @ [(d, meals)]"
    using update_fresh[OF fresh] lst by simp
  have dist: "distinct (map fst week)" using Cons.prems(2) by simp
  have disj: "fst ` set week \<inter> fst ` set (ms0 @ [(d, meals)]) = {}"
    using Cons.prems(2,3) p by auto
  from Cons.IH[OF st(3)[unfolded upd] dist disj] obtain ms1 where
    ms1: "ms = (ms0 @ [(d, meals)]) @ ms1"
         "list_all2 (\<lambda>p q. fst q = fst p \<and> day_meals (snd p) = Inr (snd q)) week ms1"
    by blast
  show ?case
    using ms1 p st(1) by (intro exI[of _ "(d, meals) # ms1"]) simp
qed

lemma list_all2_map_eq: "list_all2 (\<lambda>x y. f x = g y) xs ys \<Longrightarrow> map f xs = map g ys"
  by (induction xs ys rule: list_all2_induct) auto

lemma length_with_details:
  "length (with_details dm (List.enumerate n xs)) = length (filter (\<lambda>x. details_for dm x \<noteq> None) xs)"
  by (induction xs arbitrary: n) (auto simp: with_details_def)

lemma length_slots:
  "length (slots dm ms) = length (filter (\<lambda>x. details_for dm x \<noteq> None) (concat (map snd ms)))"
  by (induction ms) (auto simp: slots_def length_with_details)

lemma generate_rows:
  assumes "generate_meal_plan u plan_data bulk s = ((Redirect ''meal_plan'', [MsgSuccess msg]), s')"
  shows "\<exists>recipe_ids meal_structure details_map new.
           meal_structure_of plan_data = Inr (recipe_ids, meal_structure) \<and>
           details_map_of (bulk recipe_ids) = Inr details_map \<and>
           rows s' = filter (\<lambda>m. user m \<noteq> u) (rows s) @ new \<and>
           list_all2 (row_from u details_map) new (slots details_map meal_structure)"
proof -
  from generate_success[OF assms] obtain recipe_ids meal_structure details_map where
    g: "meal_structure_of plan_data = Inr (recipe_ids, meal_structure)"
       "details_map_of (bulk recipe_ids) = Inr details_map"
       "create_days u details_map meal_structure (delete_user u s) = (None, s')" by blast
  from create_days_slots[OF g(3) details_map_of_truthy[OF g(2)]] obtain new where
    "rows s' = rows (delete_user u s) @ new"
    "list_all2 (row_from u details_map) new (slots details_map meal_structure)" by blast
  with g show ?thesis by (auto simp: delete_user_def)
qed

text \<open>
  Claim C4, as the code has it. When a plan has been generated from a payload whose
  \<^verbatim>\<open>week\<close> object lists the days \<open>week\<close>, the meal structure holds for each day,
  in the order of the payload, the meals the payload lists for it, and the rows created
  are, in that order, one for each meal that has details: the row of the meal at index
  \<open>i\<close> of its day has the meal type Breakfast, Lunch, Dinner for \<open>i\<close> = 0, 1, 2 and
  \<^verbatim>\<open>Meal i+1\<close> for a later index, and as day label the day key with its first letter in
  upper case and all other letters in lower case. For a key whose other letters are in
  lower case already that is the key with its first letter capitalized.
\<close>

theorem generate_meal_types_and_days:
  assumes "generate_meal_plan u plan_data bulk s =
             ((Redirect ''meal_plan'', [MsgSuccess plan_success]), s')"
      and "subscript plan_data ''week'' = Inr (JObj week)"
      and "distinct (map fst week)"
  shows "\<exists>recipe_ids meal_structure details_map new.
           meal_structure_of plan_data = Inr (recipe_ids, meal_structure) \<and>
           details_map_of (bulk recipe_ids) = Inr details_map \<and>
           list_all2 (\<lambda>p q. fst q = fst p \<and> day_meals (snd p) = Inr (snd q)) week meal_structure \<and>
           rows s' = filter (\<lambda>m. user m \<noteq> u) (rows s) @ new \<and>
           map (\<lambda>m. (day m, meal_type m)) new =
             map (\<lambda>(d, i, meal_stub). (JStr (capitalize d), JStr (slot_name i)))
                 (slots details_map meal_structure) \<and>
           (\<forall>d\<in>fst ` set week. map lower_char (tl d) = tl d \<longrightarrow> capitalize d = upper_first d)"
proof -
  from generate_rows[OF assms(1)] obtain recipe_ids meal_structure details_map new where
    g: "meal_structure_of plan_data = Inr (recipe_ids, meal_structure)"
       "details_map_of (bulk recipe_ids) = Inr details_map"
       "rows s' = filter (\<lambda>m. user m \<noteq> u) (rows s) @ new"
       "list_all2 (row_from u details_map) new (slots details_map meal_structure)" by blast
  from g(1) assms(2) have "collect_days week [] [] = Inr (recipe_ids, meal_structure)"
    by (simp add: meal_structure_of_def)
  from collect_days_structure[OF this assms(3)] have st:
    "list_all2 (\<lambda>p q. fst q = fst p \<and> day_meals (snd p) = Inr (snd q)) week meal_structure"
    by simp
  have "list_all2 (\<lambda>m slot. (day m, meal_type m) =
            (case slot of (d, i, meal_stub) \<Rightarrow> (JStr (capitalize d), JStr (slot_name i))))
          new (slots details_map meal_structure)"
    using g(4) by (rule list_all2_mono) (auto simp: row_from_def meal_type_for_slot_name)
  from list_all2_map_eq[OF this] have mp:
    "map (\<lambda>m. (day m, meal_type m)) new =
       map (\<lambda>(d, i, meal_stub). (JStr (capitalize d), JStr (slot_name i)))
           (slots details_map meal_structure)" .
  have cap: "\<forall>d\<in>fst ` set week. map lower_char (tl d) = tl d \<longrightarrow> capitalize d = upper_first d"
  proof (intro ballI impI)
    fix d :: string assume "map lower_char (tl d) = tl d"
    then show "capitalize d = upper_first d" by (cases d) auto
  qed
  from g(1,2,3) st mp cap show ?thesis by blast
qed

theorem generate_meal_types_and_days_witness:
  "generate_meal_plan 1 example_plan example_details example_db =
     ((Redirect ''meal_plan'', [MsgSuccess plan_success]), example_after) \<and>
   subscript example_plan ''week'' = Inr (JObj example_week) \<and>
   distinct (map fst example_week) \<and>
   (\<exists>recipe_ids meal_structure details_map new.
           meal_structure_of example_plan = Inr (recipe_ids, meal_structure) \<and>
           details_map_of (example_details recipe_ids) = Inr details_map \<and>
           list_all2 (\<lambda>p q. fst q = fst p \<and> day_meals (snd p) = Inr (snd q))
             example_week meal_structure \<and>
           rows example_after = filter (\<lambda>m. user m \<noteq> 1) (rows example_db) @ new \<and>
           map (\<lambda>m. (day m, meal_type m)) new =
             map (\<lambda>(d, i, meal_stub). (JStr (capitalize d), JStr (slot_name i)))
                 (slots details_map meal_structure) \<and>
           (\<forall>d\<in>fst ` set example_week.
              map lower_char (tl d) = tl d \<longrightarrow> capitalize d = upper_first d))"
proof -
  have h: "generate_meal_plan 1 example_plan example_details example_db =
     ((Redirect ''meal_plan'', [MsgSuccess plan_success]), example_after)"
    by code_simp
  have w: "subscript example_plan ''week'' = Inr (JObj example_week)"
    by (simp add: example_plan_def example_week_def)
  have d: "distinct (map fst example_week)"
    by (simp add: example_week_def)
  from generate_meal_types_and_days[OF h w d] h w d show ?thesis by blast
qed

text \<open>
  The claim's own wording of the day label fails where the key has a capital after
  its first letter: the label stored for the key \<^verbatim>\<open>mONDAY\<close> is \<^verbatim>\<open>Monday\<close>.
\<close>

theorem day_label_lowercases_rest:
  "fst (generate_meal_plan 1 odd_case_plan example_details \<lparr>rows = [], next_pk = 0\<rparr>) =
     (Redirect ''meal_plan'', [MsgSuccess plan_success]) \<and>
   map day (rows (snd (generate_meal_plan 1 odd_case_plan example_details
                         \<lparr>rows = [], next_pk = 0\<rparr>))) = [JStr ''Monday''] \<and>
   upper_first ''mONDAY'' = ''MONDAY''"
  by code_simp

text \<open>
  Claim C10. In a run that ends with the success message, the rows created correspond
  one to one, in order, to the meals of the plan for which the details map has an
  entry, each row carrying the id of that entry; a meal whose id the bulk answer lacks
  leaves no row, so there are as many new rows as meals with details, which can be
  fewer than the meals of the plan.
\<close>

theorem generate_skips_meals_without_details:
  assumes "generate_meal_plan u plan_data bulk s =
             ((Redirect ''meal_plan'', [MsgSuccess plan_success]), s')"
  shows "\<exists>recipe_ids meal_structure details_map new.
           meal_structure_of plan_data = Inr (recipe_ids, meal_structure) \<and>
           details_map_of (bulk recipe_ids) = Inr details_map \<and>
           rows s' = filter (\<lambda>m. user m \<noteq> u) (rows s) @ new \<and>
           list_all2 (\<lambda>m slot. \<exists>md. details_for details_map (snd (snd slot)) = Some md \<and>
                                   get md ''id'' JNull = Inr (spoonacular_id m))
             new (slots details_map meal_structure) \<and>
           length new =
             length (filter (\<lambda>meal_stub. details_for details_map meal_stub \<noteq> None)
                       (concat (map snd meal_structure)))"
proof -
  from generate_rows[OF assms] obtain recipe_ids meal_structure details_map new where
    g: "meal_structure_of plan_data = Inr (recipe_ids, meal_structure)"
       "details_map_of (bulk recipe_ids) = Inr details_map"
       "rows s' = filter (\<lambda>m. user m \<noteq> u) (rows s) @ new"
       "list_all2 (row_from u details_map) new (slots details_map meal_structure)" by blast
  have a: "list_all2 (\<lambda>m slot. \<exists>md. details_for details_map (snd (snd slot)) = Some md \<and>
                                   get md ''id'' JNull = Inr (spoonacular_id m))
             new (slots details_map meal_structure)"
    using g(4) by (rule list_all2_mono) (auto simp: row_from_def)
  have "length new = length (slots details_map meal_structure)"
    using g(4) by (rule list_all2_lengthD)
  then have l: "length new =
             length (filter (\<lambda>meal_stub. details_for details_map meal_stub \<noteq> None)
                       (concat (map snd meal_structure)))"
    by (simp add: length_slots)
  from g(1,2,3) a l show ?thesis by blast
qed

theorem generate_skips_meals_without_details_witness:
  "generate_meal_plan 1 example_plan example_details example_db =
     ((Redirect ''meal_plan'', [MsgSuccess plan_success]), example_after) \<and>
   length (filter (\<lambda>m. user m = 1) (rows example_after)) = 1 \<and>
   (\<exists>recipe_ids meal_structure details_map new.
           meal_structure_of example_plan = Inr (recipe_ids, meal_structure) \<and>
           details_map_of (example_details recipe_ids) = Inr details_map \<and>
           rows example_after = filter (\<lambda>m. user m \<noteq> 1) (rows example_db) @ new \<and>
           list_all2 (\<lambda>m slot. \<exists>md. details_for details_map (snd (snd slot)) = Some md \<and>
                                   get md ''id'' JNull = Inr (spoonacular_id m))
             new (slots details_map meal_structure) \<and>
           length new =
             length (filter (\<lambda>meal_stub. details_for details_map meal_stub \<noteq> None)
                       (concat (map snd meal_structure))))"
proof -
  have h: "generate_meal_plan 1 example_plan example_details example_db =
     ((Redirect ''meal_plan'', [MsgSuccess plan_success]), example_after)"
    by code_simp
  have n: "length (filter (\<lambda>m. user m = 1) (rows example_after)) = 1"
    by (simp add: example_after_def example_row_def)
  from generate_skips_meals_without_details[OF h] h n show ?thesis by blast
qed

section \<open>Swapping, ticking and adding: answers and frame\<close>

lemma get_object_Some:
  "get_object meal_id u s = Some m \<Longrightarrow> pk m = meal_id \<and> user m = u \<and> m \<in> set (rows s)"
  unfolding get_object_def by (auto simp: find_Some_iff)

lemma find_after_save:
  "find (\<lambda>r. pk r = k \<and> user r = u) xs = Some m \<Longrightarrow> pk m' = k \<Longrightarrow> user m' = u \<Longrightarrow>
   find (\<lambda>r. pk r = k \<and> user r = u) (map (\<lambda>r. if pk r = k then m' else r) xs) = Some m'"
  by (induction xs) (auto split: if_splits)

lemma get_object_save:
  assumes "get_object meal_id u s = Some m" "pk m' = pk m" "user m' = user m"
  shows "get_object meal_id u (save m' s) = Some m'"
proof -
  from get_object_Some[OF assms(1)] have k: "pk m = meal_id" "user m = u" by simp_all
  from assms(1) have "find (\<lambda>r. pk r = meal_id \<and> user r = u) (rows s) = Some m"
    by (simp add: get_object_def)
  from find_after_save[OF this, of m'] assms(2,3) k show ?thesis
    by (simp add: get_object_def save_def)
qed

lemma swapped_frame:
  "swapped m new_recipe = Inr m' \<Longrightarrow>
   m' = m\<lparr>meal_name := meal_name m', spoonacular_id := spoonacular_id m',
          calories := calories m', image_url := image_url m'\<rparr>"
  unfolding swapped_def by (auto split: sum.splits)

lemma replace_meal_cases:
  assumes "verb = ''POST''" "get_object meal_id u s = Some m"
  shows "replace_meal u verb meal_id search random s = (json_failure replace_error, s) \<or>
         (\<exists>e. replace_meal u verb meal_id search random s = (Raised e, s)) \<or>
         (\<exists>new_recipe m'. swapped m new_recipe = Inr m' \<and>
            replace_meal u verb meal_id search random s =
              (JsonResponse [(''success'', JBool True), (''meal_name'', meal_name m'),
                             (''calories'', JInt (calories m')), (''image_url'', image_url m')],
               save m' s))"
  using assms unfolding replace_meal_def
  by (auto split: sum.splits bool.splits simp: Let_def)

text \<open>
  Claim C9. After a successful swap the target row keeps its key, owner, day, meal
  type, protein, carbs, fats, eaten flag and eaten timestamp; of its fields only the
  meal name, the recipe id, the calories and the image address can differ, and every
  row with another key is as before.
\<close>

theorem replace_meal_frame:
  assumes "replace_meal u verb meal_id search random s =
             (JsonResponse ((''success'', JBool True) # payload), s')"
  shows "\<exists>m m'. get_object meal_id u s = Some m \<and> get_object meal_id u s' = Some m' \<and>
           rows s' = map (\<lambda>r. if pk r = meal_id then m' else r) (rows s) \<and>
           next_pk s' = next_pk s \<and>
           pk m' = pk m \<and> user m' = user m \<and> day m' = day m \<and> meal_type m' = meal_type m \<and>
           protein m' = protein m \<and> carbs m' = carbs m \<and> fats m' = fats m \<and>
           eaten m' = eaten m \<and> eaten_at m' = eaten_at m"
proof -
  have post: "verb = ''POST''"
    using assms by (auto simp: replace_meal_def json_failure_def split: if_splits)
  obtain m where m: "get_object meal_id u s = Some m"
    using assms post by (cases "get_object meal_id u s") (auto simp: replace_meal_def)
  from replace_meal_cases[OF post m, of search random] assms obtain new_recipe m' where
    sw: "swapped m new_recipe = Inr m'" and s': "s' = save m' s"
    by (auto simp: json_failure_def)
  from swapped_frame[OF sw] have fr:
    "m' = m\<lparr>meal_name := meal_name m', spoonacular_id := spoonacular_id m',
            calories := calories m', image_url := image_url m'\<rparr>" .
  have pku: "pk m' = pk m" "user m' = user m"
    by (subst fr, simp)+
  have rest: "day m' = day m" "meal_type m' = meal_type m" "protein m' = protein m"
    "carbs m' = carbs m" "fats m' = fats m" "eaten m' = eaten m" "eaten_at m' = eaten_at m"
    by (subst fr, simp)+
  from get_object_Some[OF m] have k: "pk m = meal_id" by simp
  have g: "get_object meal_id u s' = Some m'"
    using get_object_save[OF m pku] s' by simp
  have r: "rows s' = map (\<lambda>r. if pk r = meal_id then m' else r) (rows s)"
    using s' pku k by (simp add: save_def)
  have n: "next_pk s' = next_pk s" using s' by (simp add: save_def)
  from m g r n pku rest show ?thesis by blast
qed

theorem replace_meal_frame_witness:
  "replace_meal 1 ''POST'' 0 example_search example_random example_db =
     (JsonResponse ((''success'', JBool True) #
        [(''meal_name'', JStr ''Salad''), (''calories'', JInt 300), (''image_url'', JNull)]),
      example_swapped) \<and>
   (\<exists>m m'. get_object 0 1 example_db = Some m \<and> get_object 0 1 example_swapped = Some m' \<and>
           rows example_swapped = map (\<lambda>r. if pk r = 0 then m' else r) (rows example_db) \<and>
           next_pk example_swapped = next_pk example_db \<and>
           pk m' = pk m \<and> user m' = user m \<and> day m' = day m \<and> meal_type m' = meal_type m \<and>
           protein m' = protein m \<and> carbs m' = carbs m \<and> fats m' = fats m \<and>
           eaten m' = eaten m \<and> eaten_at m' = eaten_at m)"
proof -
  have h: "replace_meal 1 ''POST'' 0 example_search example_random example_db =
     (JsonResponse ((''success'', JBool True) #
        [(''meal_name'', JStr ''Salad''), (''calories'', JInt 300), (''image_url'', JNull)]),
      example_swapped)"
    by code_simp
  from replace_meal_frame[OF h] h show ?thesis by blast
qed

section \<open>The JSON answers\<close>

lemma add_meal_answers:
  "fst (add_meal_to_plan str_e int_str u verb body s) = JsonResponse [(''success'', JBool True)] \<or>
   (\<exists>msg. fst (add_meal_to_plan str_e int_str u verb body s) = json_failure msg)"
  unfolding add_meal_to_plan_def by (auto split: sum.splits)

lemma toggle_found:
  assumes "get_object meal_id u s = Some m"
  shows "toggle_meal_eaten u ''POST'' meal_id now s =
           (JsonResponse [(''success'', JBool True), (''eaten'', JBool (\<not> eaten m))],
            save (m\<lparr>eaten := \<not> eaten m, eaten_at := (if \<not> eaten m then Some now else None)\<rparr>) s)"
  using assms by (simp add: toggle_meal_eaten_def Let_def)

lemma lacks_results_no_results: "lacks_results response_data \<Longrightarrow> no_results response_data = Inr True"
  by (cases response_data) (auto simp: lacks_results_def no_results_def split: option.splits)

lemma lacks_recipe_has_recipe: "lacks_recipe response_data \<Longrightarrow> has_recipe response_data = Inr False"
  by (cases response_data) (auto simp: lacks_recipe_def has_recipe_def split: option.splits)

lemma replace_no_recipe:
  assumes "get_object meal_id u s = Some m"
      and "lacks_results (search (calories m))" and "lacks_recipe random"
  shows "replace_meal u ''POST'' meal_id search random s = (json_failure replace_error, s)"
  using assms
  by (simp add: replace_meal_def lacks_results_no_results lacks_recipe_has_recipe)

lemma replace_from_search:
  assumes "get_object meal_id u s = Some m"
      and "search (calories m) = JObj entries"
      and "map_of entries ''results'' = Some (JArr (new_recipe # others))"
      and "swapped m new_recipe = Inr m'"
  shows "replace_meal u ''POST'' meal_id search random s =
           (JsonResponse [(''success'', JBool True), (''meal_name'', meal_name m'),
                          (''calories'', JInt (calories m')), (''image_url'', image_url m')],
            save m' s)"
proof -
  have ne: "entries \<noteq> []" using assms(3) by auto
  have nr: "no_results (JObj entries) = Inr False"
    using assms(3) ne by (simp add: no_results_def)
  have hr: "has_recipe (JObj entries) = Inr True"
    using assms(3) ne by (simp add: has_recipe_def)
  have fr: "first_recipe (JObj entries) = Inr new_recipe"
    using assms(3) by (simp add: first_recipe_def split: option.splits)
  show ?thesis
    using assms(1,2,4) nr hr fr by (simp add: replace_meal_def)
qed

lemma replace_from_random:
  assumes "get_object meal_id u s = Some m"
      and "lacks_results (search (calories m))"
      and "random = JObj entries"
      and "map_of entries ''results'' = None"
      and "map_of entries ''recipes'' = Some (JArr (new_recipe # others))"
      and "swapped m new_recipe = Inr m'"
  shows "replace_meal u ''POST'' meal_id search random s =
           (JsonResponse [(''success'', JBool True), (''meal_name'', meal_name m'),
                          (''calories'', JInt (calories m')), (''image_url'', image_url m')],
            save m' s)"
proof -
  have ne: "entries \<noteq> []" using assms(5) by auto
  have nr: "no_results (search (calories m)) = Inr True"
    using assms(2) by (rule lacks_results_no_results)
  have hr: "has_recipe (JObj entries) = Inr True"
    using assms(4,5) ne by (simp add: has_recipe_def)
  have fr: "first_recipe (JObj entries) = Inr new_recipe"
    using assms(4,5) by (simp add: first_recipe_def)
  show ?thesis
    using assms(1,3,6) nr hr fr by (simp add: replace_meal_def)
qed

lemma swapped_fields:
  assumes "swapped m new_recipe = Inr m'"
  shows "subscript new_recipe ''title'' = Inr (meal_name m') \<and>
         subscript new_recipe ''id'' = Inr (spoonacular_id m') \<and>
         get new_recipe ''image'' JNull = Inr (image_url m') \<and>
         (\<exists>nutrition_data cal.
            nutrients new_recipe = Inr nutrition_data \<and>
            next_amount ''Calories'' nutrition_data (JInt (calories m)) = Inr cal \<and>
            py_round cal = Inr (calories m'))"
  using assms unfolding swapped_def by (auto split: sum.splits)

lemma add_failure:
  "added int_str u body s = Inl e \<Longrightarrow>
   add_meal_to_plan str_e int_str u ''POST'' body s = (json_failure (str_e e), s)"
  by (simp add: add_meal_to_plan_def)

lemma add_success:
  "added int_str u body s = Inr s' \<Longrightarrow>
   add_meal_to_plan str_e int_str u ''POST'' body s = (JsonResponse [(''success'', JBool True)], s')"
  by (simp add: add_meal_to_plan_def)

lemma added_body_error: "added int_str u (Inl e) s = Inl e"
  by (simp add: added_def)

lemma added_missing_key:
  assumes "k \<in> {''day'', ''meal_type'', ''name'', ''recipe_id''}" and "subscript data k = Inl e"
  shows "\<exists>e'. added int_str u (Inr data) s = Inl e'"
  using assms unfolding added_def by (auto split: sum.splits)

lemma added_bad_calories:
  assumes "get data ''calories'' (JInt 0) = Inr v" and "py_int int_str v = Inl e"
  shows "\<exists>e'. added int_str u (Inr data) s = Inl e'"
  using assms unfolding added_def by (auto split: sum.splits)

lemma added_well_formed:
  assumes "map_of kvs ''day'' = Some d" and "map_of kvs ''meal_type'' = Some mt"
      and "map_of kvs ''name'' = Some nm" and "map_of kvs ''recipe_id'' = Some rid"
      and "py_int int_str (case map_of kvs ''calories'' of None \<Rightarrow> JInt 0 | Some v \<Rightarrow> v) = Inr cal"
  shows "added int_str u (Inr (JObj kvs)) s =
           Inr (objects_create u d mt nm rid cal None None None
                  (case map_of kvs ''image'' of None \<Rightarrow> JNull | Some v \<Rightarrow> v) s)"
  using assms unfolding added_def by (auto split: option.splits)

lemma json_answer_shapes:
  "(verb \<noteq> ''POST'' \<longrightarrow>
      fst (replace_meal u verb meal_id search random s) = json_failure replace_error \<and>
      fst (toggle_meal_eaten u verb meal_id now s) = json_failure ''Invalid request'' \<and>
      fst (add_meal_to_plan str_e int_str u verb body s) = json_failure ''Invalid request method'') \<and>
   (fst (add_meal_to_plan str_e int_str u verb body s) = JsonResponse [(''success'', JBool True)] \<or>
    (\<exists>msg. fst (add_meal_to_plan str_e int_str u verb body s) = json_failure msg)) \<and>
   (verb = ''POST'' \<and> get_object meal_id u s = None \<longrightarrow>
      fst (replace_meal u verb meal_id search random s) = Http404 \<and>
      fst (toggle_meal_eaten u verb meal_id now s) = Http404) \<and>
   (verb = ''POST'' \<and> get_object meal_id u s = Some m \<longrightarrow>
      fst (toggle_meal_eaten u verb meal_id now s) =
        JsonResponse [(''success'', JBool True), (''eaten'', JBool (\<not> eaten m))] \<and>
      (\<exists>m'. get_object meal_id u (snd (toggle_meal_eaten u verb meal_id now s)) = Some m' \<and>
            eaten m' = (\<not> eaten m)) \<and>
      (fst (replace_meal u verb meal_id search random s) = json_failure replace_error \<or>
       (\<exists>e. fst (replace_meal u verb meal_id search random s) = Raised e) \<or>
       (\<exists>m'. get_object meal_id u (snd (replace_meal u verb meal_id search random s)) = Some m' \<and>
             fst (replace_meal u verb meal_id search random s) =
               JsonResponse [(''success'', JBool True), (''meal_name'', meal_name m'),
                             (''calories'', JInt (calories m')), (''image_url'', image_url m')])))"
proof (intro conjI impI)
  assume "verb \<noteq> ''POST''"
  then show "fst (replace_meal u verb meal_id search random s) = json_failure replace_error"
    by (simp add: replace_meal_def)
next
  assume "verb \<noteq> ''POST''"
  then show "fst (toggle_meal_eaten u verb meal_id now s) = json_failure ''Invalid request''"
    by (simp add: toggle_meal_eaten_def)
next
  assume "verb \<noteq> ''POST''"
  then show "fst (add_meal_to_plan str_e int_str u verb body s) =
               json_failure ''Invalid request method''"
    by (simp add: add_meal_to_plan_def)
next
  show "fst (add_meal_to_plan str_e int_str u verb body s) = JsonResponse [(''success'', JBool True)] \<or>
    (\<exists>msg. fst (add_meal_to_plan str_e int_str u verb body s) = json_failure msg)"
    by (rule add_meal_answers)
next
  assume "verb = ''POST'' \<and> get_object meal_id u s = None"
  then show "fst (replace_meal u verb meal_id search random s) = Http404"
    by (simp add: replace_meal_def)
next
  assume "verb = ''POST'' \<and> get_object meal_id u s = None"
  then show "fst (toggle_meal_eaten u verb meal_id now s) = Http404"
    by (simp add: toggle_meal_eaten_def)
next
  assume a: "verb = ''POST'' \<and> get_object meal_id u s = Some m"
  then show "fst (toggle_meal_eaten u verb meal_id now s) =
        JsonResponse [(''success'', JBool True), (''eaten'', JBool (\<not> eaten m))]"
    by (simp add: toggle_found)
next
  assume a: "verb = ''POST'' \<and> get_object meal_id u s = Some m"
  let ?m' = "m\<lparr>eaten := \<not> eaten m, eaten_at := (if \<not> eaten m then Some now else None)\<rparr>"
  have "get_object meal_id u (save ?m' s) = Some ?m'"
    using a by (intro get_object_save[where m = m]) simp_all
  with a show "\<exists>m'. get_object meal_id u (snd (toggle_meal_eaten u verb meal_id now s)) = Some m' \<and>
            eaten m' = (\<not> eaten m)"
    by (simp add: toggle_found)
next
  assume a: "verb = ''POST'' \<and> get_object meal_id u s = Some m"
  then have p: "verb = ''POST''" and m: "get_object meal_id u s = Some m" by simp_all
  from replace_meal_cases[OF p m, of search random]
  show "fst (replace_meal u verb meal_id search random s) = json_failure replace_error \<or>
       (\<exists>e. fst (replace_meal u verb meal_id search random s) = Raised e) \<or>
       (\<exists>m'. get_object meal_id u (snd (replace_meal u verb meal_id search random s)) = Some m' \<and>
             fst (replace_meal u verb meal_id search random s) =
               JsonResponse [(''success'', JBool True), (''meal_name'', meal_name m'),
                             (''calories'', JInt (calories m')), (''image_url'', image_url m')])"
  proof (elim disjE exE conjE)
    assume "replace_meal u verb meal_id search random s = (json_failure replace_error, s)"
    then show ?thesis by simp
  next
    fix e assume "replace_meal u verb meal_id search random s = (Raised e, s)"
    then show ?thesis by simp
  next
    fix new_recipe m'
    assume sw: "swapped m new_recipe = Inr m'"
      and r: "replace_meal u verb meal_id search random s =
              (JsonResponse [(''success'', JBool True), (''meal_name'', meal_name m'),
                             (''calories'', JInt (calories m')), (''image_url'', image_url m')],
               save m' s)"
    from swapped_frame[OF sw] have fr:
      "m' = m\<lparr>meal_name := meal_name m', spoonacular_id := spoonacular_id m',
              calories := calories m', image_url := image_url m'\<rparr>" .
    have pku: "pk m' = pk m" "user m' = user m" by (subst fr, simp)+
    from get_object_save[OF m pku] r show ?thesis by auto
  qed
qed

text \<open>
  Claim C7, as the code has it. A request that is not a POST gets the failure
  payload from each of the three views. \<^verbatim>\<open>add_meal_to_plan\<close> answers a POST with the
  failure payload carrying the text of the exception whenever decoding the body, reading
  one of its four required entries or converting the calories raises, the table being
  left as it was, and with \<^verbatim>\<open>{'success': True}\<close> and the new row when the body is an
  object with those entries and convertible calories. A POST for a meal id that is not a
  meal of the requesting user is answered by the 404 of \<^verbatim>\<open>get_object_or_404\<close>, by
  \<^verbatim>\<open>replace_meal\<close> and by \<^verbatim>\<open>toggle_meal_eaten\<close>. A POST for a meal of the user gets
  from \<^verbatim>\<open>toggle_meal_eaten\<close> the success payload with the new eaten flag, which is the
  flag then stored. From \<^verbatim>\<open>replace_meal\<close> it gets the failure payload, with the table
  unchanged, when the search offers no results and the random request offers no recipe,
  and the success payload with the meal name, calories and image address of the saved
  row when the search, or else the random request, offers a recipe that can be read:
  these are the title, the rounded calories and the image of that recipe. An answer of
  \<^verbatim>\<open>replace_meal\<close> is always the failure payload, an exception or that success
  payload.
\<close>

theorem json_answers:
  "(verb \<noteq> ''POST'' \<longrightarrow>
      fst (replace_meal u verb meal_id search random s) = json_failure replace_error \<and>
      fst (toggle_meal_eaten u verb meal_id now s) = json_failure ''Invalid request'' \<and>
      fst (add_meal_to_plan str_e int_str u verb body s) = json_failure ''Invalid request method'') \<and>
   (fst (add_meal_to_plan str_e int_str u verb body s) = JsonResponse [(''success'', JBool True)] \<or>
    (\<exists>msg. fst (add_meal_to_plan str_e int_str u verb body s) = json_failure msg)) \<and>
   (verb = ''POST'' \<and> get_object meal_id u s = None \<longrightarrow>
      fst (replace_meal u verb meal_id search random s) = Http404 \<and>
      fst (toggle_meal_eaten u verb meal_id now s) = Http404) \<and>
   (verb = ''POST'' \<and> get_object meal_id u s = Some m \<longrightarrow>
      fst (toggle_meal_eaten u verb meal_id now s) =
        JsonResponse [(''success'', JBool True), (''eaten'', JBool (\<not> eaten m))] \<and>
      (\<exists>m'. get_object meal_id u (snd (toggle_meal_eaten u verb meal_id now s)) = Some m' \<and>
            eaten m' = (\<not> eaten m)) \<and>
      (fst (replace_meal u verb meal_id search random s) = json_failure replace_error \<or>
       (\<exists>e. fst (replace_meal u verb meal_id search random s) = Raised e) \<or>
       (\<exists>m'. get_object meal_id u (snd (replace_meal u verb meal_id search random s)) = Some m' \<and>
             fst (replace_meal u verb meal_id search random s) =
               JsonResponse [(''success'', JBool True), (''meal_name'', meal_name m'),
                             (''calories'', JInt (calories m')), (''image_url'', image_url m')]))) \<and>
   (verb = ''POST'' \<and> added int_str u body s = Inl e \<longrightarrow>
      add_meal_to_plan str_e int_str u verb body s = (json_failure (str_e e), s)) \<and>
   (verb = ''POST'' \<and> added int_str u body s = Inr s' \<longrightarrow>
      add_meal_to_plan str_e int_str u verb body s =
        (JsonResponse [(''success'', JBool True)], s')) \<and>
   (body = Inl e \<longrightarrow> added int_str u body s = Inl e) \<and>
   (body = Inr data \<and> k \<in> {''day'', ''meal_type'', ''name'', ''recipe_id''} \<and>
    subscript data k = Inl e \<longrightarrow> (\<exists>e'. added int_str u body s = Inl e')) \<and>
   (body = Inr data \<and> get data ''calories'' (JInt 0) = Inr v \<and> py_int int_str v = Inl e \<longrightarrow>
      (\<exists>e'. added int_str u body s = Inl e')) \<and>
   (body = Inr (JObj kvs) \<and> map_of kvs ''day'' = Some d \<and> map_of kvs ''meal_type'' = Some mt \<and>
    map_of kvs ''name'' = Some nm \<and> map_of kvs ''recipe_id'' = Some rid \<and>
    py_int int_str (case map_of kvs ''calories'' of None \<Rightarrow> JInt 0 | Some x \<Rightarrow> x) = Inr cal \<longrightarrow>
      added int_str u body s =
        Inr (objects_create u d mt nm rid cal None None None
               (case map_of kvs ''image'' of None \<Rightarrow> JNull | Some x \<Rightarrow> x) s)) \<and>
   (verb = ''POST'' \<and> get_object meal_id u s = Some m \<and>
    lacks_results (search (calories m)) \<and> lacks_recipe random \<longrightarrow>
      replace_meal u verb meal_id search random s = (json_failure replace_error, s)) \<and>
   (verb = ''POST'' \<and> get_object meal_id u s = Some m \<and>
    search (calories m) = JObj entries \<and>
    map_of entries ''results'' = Some (JArr (new_recipe # others)) \<and>
    swapped m new_recipe = Inr m1 \<longrightarrow>
      replace_meal u verb meal_id search random s =
        (JsonResponse [(''success'', JBool True), (''meal_name'', meal_name m1),
                       (''calories'', JInt (calories m1)), (''image_url'', image_url m1)],
         save m1 s)) \<and>
   (verb = ''POST'' \<and> get_object meal_id u s = Some m \<and>
    lacks_results (search (calories m)) \<and> random = JObj entries \<and>
    map_of entries ''results'' = None \<and>
    map_of entries ''recipes'' = Some (JArr (new_recipe # others)) \<and>
    swapped m new_recipe = Inr m1 \<longrightarrow>
      replace_meal u verb meal_id search random s =
        (JsonResponse [(''success'', JBool True), (''meal_name'', meal_name m1),
                       (''calories'', JInt (calories m1)), (''image_url'', image_url m1)],
         save m1 s)) \<and>
   (swapped m new_recipe = Inr m1 \<longrightarrow>
      subscript new_recipe ''title'' = Inr (meal_name m1) \<and>
      subscript new_recipe ''id'' = Inr (spoonacular_id m1) \<and>
      get new_recipe ''image'' JNull = Inr (image_url m1) \<and>
      (\<exists>nutrition_data c.
         nutrients new_recipe = Inr nutrition_data \<and>
         next_amount ''Calories'' nutrition_data (JInt (calories m)) = Inr c \<and>
         py_round c = Inr (calories m1)))"
proof -
  note sh = json_answer_shapes[of verb u meal_id search random s now str_e int_str body m]
  note a1 = sh[THEN conjunct1]
  note a2 = sh[THEN conjunct2, THEN conjunct1]
  note a3 = sh[THEN conjunct2, THEN conjunct2, THEN conjunct1]
  note a4 = sh[THEN conjunct2, THEN conjunct2, THEN conjunct2]
  have b1: "verb = ''POST'' \<and> added int_str u body s = Inl e \<longrightarrow>
      add_meal_to_plan str_e int_str u verb body s = (json_failure (str_e e), s)"
    by (auto simp: add_failure)
  have b2: "verb = ''POST'' \<and> added int_str u body s = Inr s' \<longrightarrow>
      add_meal_to_plan str_e int_str u verb body s =
        (JsonResponse [(''success'', JBool True)], s')"
    by (auto simp: add_success)
  have b3: "body = Inl e \<longrightarrow> added int_str u body s = Inl e"
    by (auto simp: added_body_error)
  have b4: "body = Inr data \<and> k \<in> {''day'', ''meal_type'', ''name'', ''recipe_id''} \<and>
    subscript data k = Inl e \<longrightarrow> (\<exists>e'. added int_str u body s = Inl e')"
  proof
    assume a: "body = Inr data \<and> k \<in> {''day'', ''meal_type'', ''name'', ''recipe_id''} \<and>
      subscript data k = Inl e"
    then have "k \<in> {''day'', ''meal_type'', ''name'', ''recipe_id''}" "subscript data k = Inl e"
      by simp_all
    from added_missing_key[OF this] a show "\<exists>e'. added int_str u body s = Inl e'" by simp
  qed
  have b5: "body = Inr data \<and> get data ''calories'' (JInt 0) = Inr v \<and> py_int int_str v = Inl e \<longrightarrow>
      (\<exists>e'. added int_str u body s = Inl e')"
  proof
    assume a: "body = Inr data \<and> get data ''calories'' (JInt 0) = Inr v \<and> py_int int_str v = Inl e"
    then have "get data ''calories'' (JInt 0) = Inr v" "py_int int_str v = Inl e" by simp_all
    from added_bad_calories[OF this] a show "\<exists>e'. added int_str u body s = Inl e'" by simp
  qed
  have b6: "body = Inr (JObj kvs) \<and> map_of kvs ''day'' = Some d \<and> map_of kvs ''meal_type'' = Some mt \<and>
    map_of kvs ''name'' = Some nm \<and> map_of kvs ''recipe_id'' = Some rid \<and>
    py_int int_str (case map_of kvs ''calories'' of None \<Rightarrow> JInt 0 | Some x \<Rightarrow> x) = Inr cal \<longrightarrow>
      added int_str u body s =
        Inr (objects_create u d mt nm rid cal None None None
               (case map_of kvs ''image'' of None \<Rightarrow> JNull | Some x \<Rightarrow> x) s)"
  proof
    assume a: "body = Inr (JObj kvs) \<and> map_of kvs ''day'' = Some d \<and>
      map_of kvs ''meal_type'' = Some mt \<and> map_of kvs ''name'' = Some nm \<and>
      map_of kvs ''recipe_id'' = Some rid \<and>
      py_int int_str (case map_of kvs ''calories'' of None \<Rightarrow> JInt 0 | Some x \<Rightarrow> x) = Inr cal"
    then have "map_of kvs ''day'' = Some d" "map_of kvs ''meal_type'' = Some mt"
      "map_of kvs ''name'' = Some nm" "map_of kvs ''recipe_id'' = Some rid"
      "py_int int_str (case map_of kvs ''calories'' of None \<Rightarrow> JInt 0 | Some x \<Rightarrow> x) = Inr cal"
      by simp_all
    from added_well_formed[OF this] a show "added int_str u body s =
        Inr (objects_create u d mt nm rid cal None None None
               (case map_of kvs ''image'' of None \<Rightarrow> JNull | Some x \<Rightarrow> x) s)" by simp
  qed
  have b7: "verb = ''POST'' \<and> get_object meal_id u s = Some m \<and>
    lacks_results (search (calories m)) \<and> lacks_recipe random \<longrightarrow>
      replace_meal u verb meal_id search random s = (json_failure replace_error, s)"
    by (auto simp: replace_no_recipe)
  have b8: "verb = ''POST'' \<and> get_object meal_id u s = Some m \<and>
    search (calories m) = JObj entries \<and>
    map_of entries ''results'' = Some (JArr (new_recipe # others)) \<and>
    swapped m new_recipe = Inr m1 \<longrightarrow>
      replace_meal u verb meal_id search random s =
        (JsonResponse [(''success'', JBool True), (''meal_name'', meal_name m1),
                       (''calories'', JInt (calories m1)), (''image_url'', image_url m1)],
         save m1 s)"
  proof
    assume a: "verb = ''POST'' \<and> get_object meal_id u s = Some m \<and>
      search (calories m) = JObj entries \<and>
      map_of entries ''results'' = Some (JArr (new_recipe # others)) \<and>
      swapped m new_recipe = Inr m1"
    then have "get_object meal_id u s = Some m" "search (calories m) = JObj entries"
      "map_of entries ''results'' = Some (JArr (new_recipe # others))" "swapped m new_recipe = Inr m1"
      by simp_all
    from replace_from_search[where search = search and m = m and random = random
        and entries = entries, OF this] a show
      "replace_meal u verb meal_id search random s =
        (JsonResponse [(''success'', JBool True), (''meal_name'', meal_name m1),
                       (''calories'', JInt (calories m1)), (''image_url'', image_url m1)],
         save m1 s)" by simp
  qed
  have b9: "verb = ''POST'' \<and> get_object meal_id u s = Some m \<and>
    lacks_results (search (calories m)) \<and> random = JObj entries \<and>
    map_of entries ''results'' = None \<and>
    map_of entries ''recipes'' = Some (JArr (new_recipe # others)) \<and>
    swapped m new_recipe = Inr m1 \<longrightarrow>
      replace_meal u verb meal_id search random s =
        (JsonResponse [(''success'', JBool True), (''meal_name'', meal_name m1),
                       (''calories'', JInt (calories m1)), (''image_url'', image_url m1)],
         save m1 s)"
  proof
    assume a: "verb = ''POST'' \<and> get_object meal_id u s = Some m \<and>
      lacks_results (search (calories m)) \<and> random = JObj entries \<and>
      map_of entries ''results'' = None \<and>
      map_of entries ''recipes'' = Some (JArr (new_recipe # others)) \<and>
      swapped m new_recipe = Inr m1"
    then have "get_object meal_id u s = Some m" "lacks_results (search (calories m))"
      "random = JObj entries" "map_of entries ''results'' = None"
      "map_of entries ''recipes'' = Some (JArr (new_recipe # others))" "swapped m new_recipe = Inr m1"
      by simp_all
    from replace_from_random[where search = search and m = m and random = random
        and entries = entries, OF this] a show
      "replace_meal u verb meal_id search random s =
        (JsonResponse [(''success'', JBool True), (''meal_name'', meal_name m1),
                       (''calories'', JInt (calories m1)), (''image_url'', image_url m1)],
         save m1 s)" by simp
  qed
  have b10: "swapped m new_recipe = Inr m1 \<longrightarrow>
      subscript new_recipe ''title'' = Inr (meal_name m1) \<and>
      subscript new_recipe ''id'' = Inr (spoonacular_id m1) \<and>
      get new_recipe ''image'' JNull = Inr (image_url m1) \<and>
      (\<exists>nutrition_data c.
         nutrients new_recipe = Inr nutrition_data \<and>
         next_amount ''Calories'' nutrition_data (JInt (calories m)) = Inr c \<and>
         py_round c = Inr (calories m1))"
    using swapped_fields[of m new_recipe m1] by blast
  show ?thesis
    by (intro conjI) (rule a1 a2 a3 a4 b1 b2 b3 b4 b5 b6 b7 b8 b9 b10)+
qed

theorem json_answers_witness:
  "fst (replace_meal 1 ''GET'' 0 example_search example_random example_db) =
     json_failure replace_error \<and>
   fst (toggle_meal_eaten 1 ''GET'' 0 0 example_db) = json_failure ''Invalid request'' \<and>
   fst (add_meal_to_plan example_str_e example_int_str 1 ''GET'' example_body example_db) =
     json_failure ''Invalid request method'' \<and>
   fst (replace_meal 1 ''POST'' 7 example_search example_random example_db) = Http404 \<and>
   fst (toggle_meal_eaten 1 ''POST'' 0 0 example_db) =
     JsonResponse [(''success'', JBool True), (''eaten'', JBool False)] \<and>
   add_meal_to_plan example_str_e example_int_str 1 ''POST'' (Inr (JObj [])) example_db =
     (json_failure (example_str_e KeyError), example_db) \<and>
   add_meal_to_plan example_str_e example_int_str 1 ''POST'' (Inl ValueError) example_db =
     (json_failure (example_str_e ValueError), example_db) \<and>
   add_meal_to_plan example_str_e example_int_str 1 ''POST'' example_body example_db =
     (JsonResponse [(''success'', JBool True)], example_added) \<and>
   replace_meal 1 ''POST'' 0 example_search JNull example_db =
     (json_failure replace_error, example_db) \<and>
   replace_meal 1 ''POST'' 0 example_search example_random example_db =
     (JsonResponse [(''success'', JBool True), (''meal_name'', JStr ''Salad''),
                    (''calories'', JInt 300), (''image_url'', JNull)],
      example_swapped)"
proof -
  let ?new = "example_row\<lparr>meal_name := JStr ''Salad'', spoonacular_id := JInt 5,
                           calories := 300, image_url := JNull\<rparr>"
  note ja = json_answers[where u = 1 and s = example_db and str_e = example_str_e
      and int_str = example_int_str and now = 0 and search = example_search and data = JNull
      and k = "''day''" and v = JNull and kvs = "[]" and d = JNull and mt = JNull
      and nm = JNull and rid = JNull and cal = 0 and others = "[]"
      and new_recipe = example_recipe and ?m1.0 = ?new and m = example_row
      and entries = "[(''recipes'', JArr [example_recipe])]"]
  have g: "''GET'' \<noteq> ''POST''" by simp
  have n: "get_object 7 1 example_db = None" by code_simp
  have f: "get_object 0 1 example_db = Some example_row" by code_simp
  have e: "eaten example_row" by (simp add: example_row_def)
  have 1: "fst (replace_meal 1 ''GET'' 0 example_search example_random example_db) =
             json_failure replace_error \<and>
           fst (toggle_meal_eaten 1 ''GET'' 0 0 example_db) = json_failure ''Invalid request'' \<and>
           fst (add_meal_to_plan example_str_e example_int_str 1 ''GET'' example_body example_db) =
             json_failure ''Invalid request method''"
    by (rule ja[where verb = "''GET''" and meal_id = 0 and random = example_random
        and body = example_body and e = KeyError and s' = example_db,
        THEN conjunct1, THEN mp, OF g])
  have 2: "fst (replace_meal 1 ''POST'' 7 example_search example_random example_db) = Http404"
    by (rule ja[where verb = "''POST''" and meal_id = 7 and random = example_random
        and body = example_body and e = KeyError and s' = example_db,
        THEN conjunct2, THEN conjunct2, THEN conjunct1, THEN mp, OF conjI[OF refl n], THEN conjunct1])
  have "fst (toggle_meal_eaten 1 ''POST'' 0 0 example_db) =
     JsonResponse [(''success'', JBool True), (''eaten'', JBool (\<not> eaten example_row))]"
    by (rule ja[where verb = "''POST''" and meal_id = 0 and random = example_random
        and body = example_body and e = KeyError and s' = example_db,
        THEN conjunct2, THEN conjunct2, THEN conjunct2, THEN conjunct1, THEN mp, OF conjI[OF refl f], THEN conjunct1])
  with e have 3: "fst (toggle_meal_eaten 1 ''POST'' 0 0 example_db) =
     JsonResponse [(''success'', JBool True), (''eaten'', JBool False)]"
    by simp
  have k: "added example_int_str 1 (Inr (JObj [])) example_db = Inl KeyError" by code_simp
  have 4: "add_meal_to_plan example_str_e example_int_str 1 ''POST'' (Inr (JObj [])) example_db =
     (json_failure (example_str_e KeyError), example_db)"
    by (rule ja[where verb = "''POST''" and meal_id = 0 and random = example_random
        and body = "Inr (JObj [])" and e = KeyError and s' = example_db,
        THEN conjunct2, THEN conjunct2, THEN conjunct2, THEN conjunct2, THEN conjunct1, THEN mp, OF conjI[OF refl k]])
  have v: "added example_int_str 1 (Inl ValueError) example_db = Inl ValueError"
    by (rule ja[where verb = "''POST''" and meal_id = 0 and random = example_random
        and body = "Inl ValueError" and e = ValueError and s' = example_db,
        THEN conjunct2, THEN conjunct2, THEN conjunct2, THEN conjunct2, THEN conjunct2, THEN conjunct2, THEN conjunct1, THEN mp, OF refl])
  have 5: "add_meal_to_plan example_str_e example_int_str 1 ''POST'' (Inl ValueError) example_db =
     (json_failure (example_str_e ValueError), example_db)"
    by (rule ja[where verb = "''POST''" and meal_id = 0 and random = example_random
        and body = "Inl ValueError" and e = ValueError and s' = example_db,
        THEN conjunct2, THEN conjunct2, THEN conjunct2, THEN conjunct2, THEN conjunct1, THEN mp, OF conjI[OF refl v]])
  have ok: "added example_int_str 1 example_body example_db = Inr example_added" by code_simp
  have 6: "add_meal_to_plan example_str_e example_int_str 1 ''POST'' example_body example_db =
     (JsonResponse [(''success'', JBool True)], example_added)"
    by (rule ja[where verb = "''POST''" and meal_id = 0 and random = example_random
        and body = example_body and e = KeyError and s' = example_added,
        THEN conjunct2, THEN conjunct2, THEN conjunct2, THEN conjunct2, THEN conjunct2, THEN conjunct1, THEN mp, OF conjI[OF refl ok]])
  have lr: "lacks_results (example_search (calories example_row))"
    by (simp add: lacks_results_def example_search_def)
  have lc: "lacks_recipe JNull" by (simp add: lacks_recipe_def)
  have 7: "replace_meal 1 ''POST'' 0 example_search JNull example_db =
     (json_failure replace_error, example_db)"
    by (rule ja[where verb = "''POST''" and meal_id = 0 and random = JNull
        and body = example_body and e = KeyError and s' = example_db,
        THEN conjunct2, THEN conjunct2, THEN conjunct2, THEN conjunct2, THEN conjunct2, THEN conjunct2, THEN conjunct2, THEN conjunct2, THEN conjunct2, THEN conjunct2, THEN conjunct1, THEN mp, OF conjI[OF refl conjI[OF f conjI[OF lr lc]]]])
  have sw: "swapped example_row example_recipe = Inr ?new" by code_simp
  have sv: "save ?new example_db = example_swapped" by code_simp
  have rn: "example_random = JObj [(''recipes'', JArr [example_recipe])]"
    by (simp add: example_random_def)
  have n1: "map_of [(''recipes'', JArr [example_recipe])] ''results'' = None"
    by simp
  have n2: "map_of [(''recipes'', JArr [example_recipe])] ''recipes'' = Some (JArr [example_recipe])"
    by simp
  have "replace_meal 1 ''POST'' 0 example_search example_random example_db =
     (JsonResponse [(''success'', JBool True), (''meal_name'', meal_name ?new),
                    (''calories'', JInt (calories ?new)), (''image_url'', image_url ?new)],
      save ?new example_db)"
    by (rule ja[where verb = "''POST''" and meal_id = 0 and random = example_random
        and body = example_body and e = KeyError and s' = example_db,
        THEN conjunct2, THEN conjunct2, THEN conjunct2, THEN conjunct2, THEN conjunct2, THEN conjunct2, THEN conjunct2, THEN conjunct2, THEN conjunct2, THEN conjunct2, THEN conjunct2, THEN conjunct2, THEN conjunct1, THEN mp,
        OF conjI[OF refl conjI[OF f conjI[OF lr conjI[OF rn conjI[OF n1 conjI[OF n2 sw]]]]]]])
  with sv have 8: "replace_meal 1 ''POST'' 0 example_search example_random example_db =
     (JsonResponse [(''success'', JBool True), (''meal_name'', JStr ''Salad''),
                    (''calories'', JInt 300), (''image_url'', JNull)],
      example_swapped)"
    by simp
  show ?thesis
    by (intro conjI) (rule 1[THEN conjunct1] 1[THEN conjunct2, THEN conjunct1]
        1[THEN conjunct2, THEN conjunct2] 2 3 4 5 6 7 8)+
qed

text \<open>
  A POST to \<^verbatim>\<open>toggle_meal_eaten\<close> for an id that no meal of the user has is not
  answered with a JSON payload.
\<close>

theorem toggle_unknown_meal_is_404:
  "fst (toggle_meal_eaten 1 ''POST'' 7 0 example_db) = Http404"
  by code_simp

section \<open>The eaten flag and its timestamp\<close>

lemma generate_table:
  "snd (generate_meal_plan u plan_data bulk s) = s \<or>
   (\<exists>details_map meal_structure r.
      create_days u details_map meal_structure (delete_user u s) =
        (r, snd (generate_meal_plan u plan_data bulk s)))"
  unfolding generate_meal_plan_def
  by (auto split: sum.splits option.splits if_splits prod.splits bool.splits simp: Let_def)

lemma generate_new_rows:
  "\<forall>r\<in>set (rows (snd (generate_meal_plan u plan_data bulk s))).
     r \<in> set (rows s) \<or> (\<not> eaten r \<and> eaten_at r = None)"
proof -
  from generate_table[of u plan_data bulk s] show ?thesis
  proof
    assume "snd (generate_meal_plan u plan_data bulk s) = s"
    then show ?thesis by simp
  next
    assume "\<exists>details_map meal_structure r.
      create_days u details_map meal_structure (delete_user u s) =
        (r, snd (generate_meal_plan u plan_data bulk s))"
    then obtain details_map meal_structure r where
      "create_days u details_map meal_structure (delete_user u s) =
        (r, snd (generate_meal_plan u plan_data bulk s))" by blast
    from create_days_grows[OF this] show ?thesis
      by (auto simp: delete_user_def)
  qed
qed

lemma add_new_rows:
  "\<forall>r\<in>set (rows (snd (add_meal_to_plan str_e int_str u verb body s))).
     r \<in> set (rows s) \<or> (\<not> eaten r \<and> eaten_at r = None)"
  unfolding add_meal_to_plan_def added_def
  by (auto split: sum.splits simp: objects_create_def)

lemma rows_same:
  "\<forall>r\<in>set (rows s). \<exists>r0\<in>set (rows s). pk r = pk r0 \<and> eaten r = eaten r0 \<and> eaten_at r = eaten_at r0"
  by blast

lemma replace_rows:
  "\<forall>r\<in>set (rows (snd (replace_meal u verb meal_id search random s))).
     \<exists>r0\<in>set (rows s). pk r = pk r0 \<and> eaten r = eaten r0 \<and> eaten_at r = eaten_at r0"
proof (cases "verb = ''POST''")
  case False
  then have "snd (replace_meal u verb meal_id search random s) = s"
    by (simp add: replace_meal_def)
  then show ?thesis using rows_same[of s] by simp
next
  case True
  show ?thesis
  proof (cases "get_object meal_id u s")
    case None
    with True have "snd (replace_meal u verb meal_id search random s) = s"
      by (simp add: replace_meal_def)
    then show ?thesis using rows_same[of s] by simp
  next
    case (Some m)
    from replace_meal_cases[OF True Some, of search random] show ?thesis
    proof (elim disjE exE conjE)
      assume "replace_meal u verb meal_id search random s = (json_failure replace_error, s)"
      then have "snd (replace_meal u verb meal_id search random s) = s" by simp
      then show ?thesis using rows_same[of s] by simp
    next
      fix e assume "replace_meal u verb meal_id search random s = (Raised e, s)"
      then have "snd (replace_meal u verb meal_id search random s) = s" by simp
      then show ?thesis using rows_same[of s] by simp
    next
      fix new_recipe m'
      assume sw: "swapped m new_recipe = Inr m'"
        and r: "replace_meal u verb meal_id search random s =
                (JsonResponse [(''success'', JBool True), (''meal_name'', meal_name m'),
                               (''calories'', JInt (calories m')), (''image_url'', image_url m')],
                 save m' s)"
      from swapped_frame[OF sw] have fr:
        "m' = m\<lparr>meal_name := meal_name m', spoonacular_id := spoonacular_id m',
                calories := calories m', image_url := image_url m'\<rparr>" .
      have e: "pk m' = pk m" "eaten m' = eaten m" "eaten_at m' = eaten_at m" by (subst fr, simp)+
      from get_object_Some[OF Some] have mem: "m \<in> set (rows s)" by simp
      have "\<forall>r\<in>set (rows (save m' s)).
              \<exists>r0\<in>set (rows s). pk r = pk r0 \<and> eaten r = eaten r0 \<and> eaten_at r = eaten_at r0"
      proof
        fix r assume "r \<in> set (rows (save m' s))"
        then have "r = m' \<or> r \<in> set (rows s)" by (auto simp: save_def)
        then show "\<exists>r0\<in>set (rows s). pk r = pk r0 \<and> eaten r = eaten r0 \<and> eaten_at r = eaten_at r0"
          using e mem by blast
      qed
      with r show ?thesis by simp
    qed
  qed
qed

lemma consistent_transfer:
  assumes "\<forall>m\<in>set xs. (eaten_at m \<noteq> None) = eaten m"
      and "\<forall>r\<in>set ys. \<exists>r0\<in>set xs. pk r = pk r0 \<and> eaten r = eaten r0 \<and> eaten_at r = eaten_at r0"
  shows "\<forall>m\<in>set ys. (eaten_at m \<noteq> None) = eaten m"
proof
  fix m assume "m \<in> set ys"
  with assms(2) obtain r0 where "r0 \<in> set xs" "eaten m = eaten r0" "eaten_at m = eaten_at r0"
    by blast
  with assms(1) show "(eaten_at m \<noteq> None) = eaten m" by simp
qed

lemma consistent_new:
  assumes "\<forall>m\<in>set xs. (eaten_at m \<noteq> None) = eaten m"
      and "\<forall>r\<in>set ys. r \<in> set xs \<or> (\<not> eaten r \<and> eaten_at r = None)"
  shows "\<forall>m\<in>set ys. (eaten_at m \<noteq> None) = eaten m"
proof
  fix m assume "m \<in> set ys"
  with assms(2) have "m \<in> set xs \<or> (\<not> eaten m \<and> eaten_at m = None)" by blast
  with assms(1) show "(eaten_at m \<noteq> None) = eaten m" by auto
qed

lemma toggle_consistent:
  assumes "\<forall>m\<in>set (rows s). (eaten_at m \<noteq> None) = eaten m"
  shows "\<forall>m\<in>set (rows (snd (toggle_meal_eaten u verb meal_id now s))). (eaten_at m \<noteq> None) = eaten m"
proof (cases "verb = ''POST''")
  case False
  with assms show ?thesis by (simp add: toggle_meal_eaten_def)
next
  case True
  show ?thesis
  proof (cases "get_object meal_id u s")
    case None
    with True assms show ?thesis by (simp add: toggle_meal_eaten_def)
  next
    case (Some m)
    let ?m' = "m\<lparr>eaten := \<not> eaten m, eaten_at := (if \<not> eaten m then Some now else None)\<rparr>"
    have "\<forall>r\<in>set (rows (save ?m' s)). (eaten_at r \<noteq> None) = eaten r"
    proof
      fix r assume "r \<in> set (rows (save ?m' s))"
      then have "r = ?m' \<or> r \<in> set (rows s)" by (auto simp: save_def)
      then show "(eaten_at r \<noteq> None) = eaten r"
      proof
        assume "r = ?m'" then show ?thesis by simp
      next
        assume "r \<in> set (rows s)" with assms show ?thesis by blast
      qed
    qed
    with True Some show ?thesis by (simp add: toggle_found)
  qed
qed

lemma eaten_consistent_iff:
  "eaten_consistent s = (\<forall>m\<in>set (rows s). (eaten_at m \<noteq> None) = eaten m)"
  by (simp add: eaten_consistent_def list_all_iff)

text \<open>
  Claim C8. Each view that writes the table keeps the invariant that a row has an
  eaten timestamp exactly when it is flagged eaten. \<^verbatim>\<open>toggle_meal_eaten\<close> negates the
  flag of its target and stores the current time when the flag becomes true and no
  timestamp when it becomes false. The rows that \<^verbatim>\<open>generate_meal_plan\<close> and
  \<^verbatim>\<open>add_meal_to_plan\<close> add are not eaten and without timestamp, and after
  \<^verbatim>\<open>replace_meal\<close> every row has the flag and timestamp of a row that had its key
  before.
\<close>

theorem eaten_invariant:
  assumes "eaten_consistent s"
  shows "eaten_consistent (snd (generate_meal_plan u plan_data bulk s)) \<and>
         eaten_consistent (snd (replace_meal u verb meal_id search random s)) \<and>
         eaten_consistent (snd (toggle_meal_eaten u verb meal_id now s)) \<and>
         eaten_consistent (snd (add_meal_to_plan str_e int_str u verb body s)) \<and>
         (verb = ''POST'' \<and> get_object meal_id u s = Some m \<longrightarrow>
            (\<exists>m'. get_object meal_id u (snd (toggle_meal_eaten u verb meal_id now s)) = Some m' \<and>
                  eaten m' = (\<not> eaten m) \<and>
                  eaten_at m' = (if eaten m then None else Some now))) \<and>
         (\<forall>r\<in>set (rows (snd (generate_meal_plan u plan_data bulk s))).
            r \<in> set (rows s) \<or> (\<not> eaten r \<and> eaten_at r = None)) \<and>
         (\<forall>r\<in>set (rows (snd (add_meal_to_plan str_e int_str u verb body s))).
            r \<in> set (rows s) \<or> (\<not> eaten r \<and> eaten_at r = None)) \<and>
         (\<forall>r\<in>set (rows (snd (replace_meal u verb meal_id search random s))).
            \<exists>r0\<in>set (rows s). pk r = pk r0 \<and> eaten r = eaten r0 \<and> eaten_at r = eaten_at r0)"
proof -
  have inv: "\<forall>m\<in>set (rows s). (eaten_at m \<noteq> None) = eaten m"
    using assms by (simp add: eaten_consistent_iff)
  have 1: "eaten_consistent (snd (generate_meal_plan u plan_data bulk s))"
    unfolding eaten_consistent_iff
    using consistent_new[OF inv generate_new_rows[of u plan_data bulk s]] .
  have 2: "eaten_consistent (snd (replace_meal u verb meal_id search random s))"
    unfolding eaten_consistent_iff
    using consistent_transfer[OF inv replace_rows[of u verb meal_id search random s]] .
  have 3: "eaten_consistent (snd (toggle_meal_eaten u verb meal_id now s))"
    unfolding eaten_consistent_iff
    using toggle_consistent[OF inv] .
  have 4: "eaten_consistent (snd (add_meal_to_plan str_e int_str u verb body s))"
    unfolding eaten_consistent_iff
    using consistent_new[OF inv add_new_rows[of str_e int_str u verb body s]] .
  have 5: "verb = ''POST'' \<and> get_object meal_id u s = Some m \<longrightarrow>
            (\<exists>m'. get_object meal_id u (snd (toggle_meal_eaten u verb meal_id now s)) = Some m' \<and>
                  eaten m' = (\<not> eaten m) \<and>
                  eaten_at m' = (if eaten m then None else Some now))"
  proof
    assume a: "verb = ''POST'' \<and> get_object meal_id u s = Some m"
    let ?m' = "m\<lparr>eaten := \<not> eaten m, eaten_at := (if \<not> eaten m then Some now else None)\<rparr>"
    have "get_object meal_id u (save ?m' s) = Some ?m'"
      using a by (intro get_object_save[where m = m]) simp_all
    with a show "\<exists>m'. get_object meal_id u (snd (toggle_meal_eaten u verb meal_id now s)) = Some m' \<and>
                  eaten m' = (\<not> eaten m) \<and> eaten_at m' = (if eaten m then None else Some now)"
      by (simp add: toggle_found)
  qed
  note 6 = generate_new_rows[of u plan_data bulk s]
  note 7 = add_new_rows[of str_e int_str u verb body s]
  note 8 = replace_rows[of u verb meal_id search random s]
  show ?thesis
    by (intro conjI) (rule 1 2 3 4 5 6 7 8)+
qed

theorem eaten_invariant_witness:
  "eaten_consistent example_db \<and>
   eaten_consistent (snd (generate_meal_plan 1 example_plan example_details example_db)) \<and>
   eaten_consistent (snd (replace_meal 1 ''POST'' 0 example_search example_random example_db)) \<and>
   eaten_consistent (snd (toggle_meal_eaten 1 ''POST'' 0 900000 example_db)) \<and>
   eaten_consistent (snd (add_meal_to_plan example_str_e example_int_str 1 ''POST''
                             example_body example_db)) \<and>
   (\<exists>m'. get_object 0 1 (snd (toggle_meal_eaten 1 ''POST'' 0 900000 example_db)) = Some m' \<and>
         eaten m' = (\<not> eaten example_row) \<and>
         eaten_at m' = (if eaten example_row then None else Some 900000))"
proof -
  have c: "eaten_consistent example_db" by code_simp
  have f: "get_object 0 1 example_db = Some example_row" by code_simp
  from eaten_invariant[OF c, of 1 example_plan example_details "''POST''" 0 example_search
      example_random 900000 example_str_e example_int_str example_body example_row] c f
  show ?thesis by simp
qed

section \<open>Weekly aggregation\<close>

lemma sum_list_insort_key:
  "sum_list (map g (insort_key f x xs)) = g x + sum_list (map g xs)"
  for g :: "'a \<Rightarrow> int"
  by (induction xs) auto

lemma sum_list_sort_key:
  "sum_list (map g (sort_key f xs)) = sum_list (map g xs)"
  for g :: "'a \<Rightarrow> int"
  by (induction xs) (auto simp: sum_list_insort_key)

lemma sum_filter_sort_key:
  "sum_list (map g (filter P (sort_key f xs))) = sum_list (map g (filter P xs))"
  for g :: "'a \<Rightarrow> int"
  by (simp add: filter_sort sum_list_sort_key)

lemma length_filter_sort_key:
  "length (filter P (sort_key f xs)) = length (filter P xs)"
  by (simp add: filter_sort)

lemma map_of_keys: "map_of al k = Some v \<Longrightarrow> k \<in> fst ` set al"
  by (induction al) (auto split: if_splits)

lemma accumulate_result:
  "\<forall>m\<in>set ms. eaten_at m \<noteq> None \<Longrightarrow>
   \<exists>dd'. accumulate ms dd = Inr dd' \<and> map fst dd' = map fst dd \<and>
     (\<forall>d c n. map_of dd d = Some (c, n) \<longrightarrow>
        map_of dd' d =
          Some (c + sum_list (map calories (filter (\<lambda>m. date_key m = d) ms)),
                n + int (length (filter (\<lambda>m. date_key m = d) ms))))"
proof (induction ms arbitrary: dd)
  case Nil
  then show ?case by simp
next
  case (Cons m ms)
  from Cons.prems obtain t where t: "eaten_at m = Some t" by auto
  have k: "date_key m = date_of t" using t by (simp add: date_key_def)
  have rest: "\<forall>m\<in>set ms. eaten_at m \<noteq> None" using Cons.prems by simp
  show ?case
  proof (cases "map_of dd (date_of t)")
    case None
    from Cons.IH[OF rest, of dd] obtain dd' where
      ih: "accumulate ms dd = Inr dd'" "map fst dd' = map fst dd"
          "\<forall>d c n. map_of dd d = Some (c, n) \<longrightarrow>
             map_of dd' d =
               Some (c + sum_list (map calories (filter (\<lambda>m. date_key m = d) ms)),
                     n + int (length (filter (\<lambda>m. date_key m = d) ms)))" by blast
    have acc: "accumulate (m # ms) dd = Inr dd'" using t None ih(1) by simp
    have vals: "\<forall>d c n. map_of dd d = Some (c, n) \<longrightarrow>
        map_of dd' d =
          Some (c + sum_list (map calories (filter (\<lambda>m. date_key m = d) (m # ms))),
                n + int (length (filter (\<lambda>m. date_key m = d) (m # ms))))"
    proof (intro allI impI)
      fix d c n assume a: "map_of dd d = Some (c, n)"
      with None have "d \<noteq> date_of t" by auto
      with k have "filter (\<lambda>m. date_key m = d) (m # ms) = filter (\<lambda>m. date_key m = d) ms" by simp
      with ih(3) a show "map_of dd' d =
          Some (c + sum_list (map calories (filter (\<lambda>m. date_key m = d) (m # ms))),
                n + int (length (filter (\<lambda>m. date_key m = d) (m # ms))))" by simp
    qed
    from acc ih(2) vals show ?thesis by blast
  next
    case (Some v)
    obtain c0 n0 where v: "v = (c0, n0)" by (cases v)
    let ?dd1 = "AList.update (date_of t) (c0 + calories m, n0 + 1) dd"
    from Cons.IH[OF rest, of ?dd1] obtain dd' where
      ih: "accumulate ms ?dd1 = Inr dd'" "map fst dd' = map fst ?dd1"
          "\<forall>d c n. map_of ?dd1 d = Some (c, n) \<longrightarrow>
             map_of dd' d =
               Some (c + sum_list (map calories (filter (\<lambda>m. date_key m = d) ms)),
                     n + int (length (filter (\<lambda>m. date_key m = d) ms)))" by blast
    have acc: "accumulate (m # ms) dd = Inr dd'" using t Some v ih(1) by simp
    have "date_of t \<in> fst ` set dd" using Some by (rule map_of_keys)
    then have keys: "map fst ?dd1 = map fst dd" by (simp add: update_keys)
    have mo: "map_of ?dd1 = (map_of dd)(date_of t \<mapsto> (c0 + calories m, n0 + 1))"
      by (rule update_conv')
    have vals: "\<forall>d c n. map_of dd d = Some (c, n) \<longrightarrow>
        map_of dd' d =
          Some (c + sum_list (map calories (filter (\<lambda>m. date_key m = d) (m # ms))),
                n + int (length (filter (\<lambda>m. date_key m = d) (m # ms))))"
    proof (intro allI impI)
      fix d c n assume a: "map_of dd d = Some (c, n)"
      show "map_of dd' d =
          Some (c + sum_list (map calories (filter (\<lambda>m. date_key m = d) (m # ms))),
                n + int (length (filter (\<lambda>m. date_key m = d) (m # ms))))"
      proof (cases "d = date_of t")
        case True
        with a Some v have cn: "c = c0" "n = n0" by simp_all
        from True mo have "map_of ?dd1 d = Some (c0 + calories m, n0 + 1)" by simp
        with ih(3) have "map_of dd' d =
               Some (c0 + calories m + sum_list (map calories (filter (\<lambda>m. date_key m = d) ms)),
                     n0 + 1 + int (length (filter (\<lambda>m. date_key m = d) ms)))" by blast
        with True cn k show ?thesis by simp
      next
        case False
        with mo a have "map_of ?dd1 d = Some (c, n)" by simp
        with ih(3) have "map_of dd' d =
               Some (c + sum_list (map calories (filter (\<lambda>m. date_key m = d) ms)),
                     n + int (length (filter (\<lambda>m. date_key m = d) ms)))" by blast
        with False k show ?thesis by simp
      qed
    qed
    from acc ih(2) keys vals show ?thesis by simp
  qed
qed

lemma alist_from_keys:
  "distinct (map fst al) \<Longrightarrow> map (\<lambda>k. (k, the (map_of al k))) (map fst al) = al"
proof (induction al)
  case Nil
  then show ?case by simp
next
  case (Cons p al)
  obtain k v where p: "p = (k, v)" by (cases p)
  from Cons.prems p have nk: "k \<notin> fst ` set al" and d: "distinct (map fst al)" by auto
  have "map (\<lambda>k'. (k', the (map_of (p # al) k'))) (map fst al) =
        map (\<lambda>k'. (k', the (map_of al k'))) (map fst al)"
    using nk p by (intro map_cong) auto
  with Cons.IH[OF d] p show ?case by simp
qed

lemma distinct_window: "distinct (window now)"
  by (simp add: window_def distinct_map inj_on_def)

lemma in_window_on:
  assumes "w \<le> d"
  shows "filter (\<lambda>m. date_key m = d) (filter (in_window u w) xs) = eaten_on u d xs"
proof -
  have "\<And>m. (in_window u w m \<and> date_key m = d) =
             (user m = u \<and> eaten m \<and> (case eaten_at m of None \<Rightarrow> False | Some t \<Rightarrow> date_of t = d))"
    using assms by (auto simp: in_window_def date_key_def split: option.splits)
  then show ?thesis by (simp add: eaten_on_def)
qed

lemma window_lower: "d \<in> set (window now) \<Longrightarrow> date_of now - 6 \<le> d"
  by (auto simp: window_def)

lemma accumulate_week:
  "accumulate (sort_key date_key (filter (in_window u (date_of now - 6)) xs))
     (map (\<lambda>d. (d, 0, 0)) (window now)) = Inr (daily_totals u now xs)"
proof -
  let ?ms = "sort_key date_key (filter (in_window u (date_of now - 6)) xs)"
  let ?dd = "map (\<lambda>d. (d, 0::int, 0::int)) (window now)"
  have ts: "\<forall>m\<in>set ?ms. eaten_at m \<noteq> None"
    by (auto simp: in_window_def split: option.splits)
  from accumulate_result[OF ts, of ?dd] obtain dd' where
    r: "accumulate ?ms ?dd = Inr dd'" "map fst dd' = map fst ?dd"
       "\<forall>d c n. map_of ?dd d = Some (c, n) \<longrightarrow>
          map_of dd' d =
            Some (c + sum_list (map calories (filter (\<lambda>m. date_key m = d) ?ms)),
                  n + int (length (filter (\<lambda>m. date_key m = d) ?ms)))" by blast
  have keys: "map fst dd' = window now" using r(2) by (simp add: comp_def)
  have init: "\<And>d. d \<in> set (window now) \<Longrightarrow> map_of ?dd d = Some (0, 0)"
    by (simp add: map_of_map_restrict)
  have val: "\<And>d. d \<in> set (window now) \<Longrightarrow>
      map_of dd' d = Some (sum_list (map calories (eaten_on u d xs)), int (length (eaten_on u d xs)))"
  proof -
    fix d assume d: "d \<in> set (window now)"
    from r(3) init[OF d] have "map_of dd' d =
            Some (0 + sum_list (map calories (filter (\<lambda>m. date_key m = d) ?ms)),
                  0 + int (length (filter (\<lambda>m. date_key m = d) ?ms)))" by blast
    moreover have "filter (\<lambda>m. date_key m = d) ?ms = sort_key date_key (eaten_on u d xs)"
      by (simp only: filter_sort in_window_on[OF window_lower[OF d]])
    ultimately show "map_of dd' d =
        Some (sum_list (map calories (eaten_on u d xs)), int (length (eaten_on u d xs)))"
      by (simp add: sum_list_sort_key)
  qed
  have "distinct (map fst dd')" using keys distinct_window by simp
  from alist_from_keys[OF this] have "dd' = map (\<lambda>k. (k, the (map_of dd' k))) (window now)"
    using keys by simp
  also have "\<dots> = daily_totals u now xs"
    unfolding daily_totals_def by (intro map_cong) (simp_all add: val)
  finally show ?thesis using r(1) by simp
qed

lemma column_totals:
  "set ds \<subseteq> set ks \<Longrightarrow>
   column field (map (\<lambda>d. (d, g d)) ks) ds = Inr (map (\<lambda>d. field (g d)) ds)"
  by (induction ds) (auto simp: map_of_map_restrict)

lemma column_daily:
  "column field (daily_totals u now xs) (window now) =
     Inr (map (\<lambda>d. field (sum_list (map calories (eaten_on u d xs)), int (length (eaten_on u d xs))))
            (window now))"
  unfolding daily_totals_def by (rule column_totals) simp

lemma progress_view_unfold:
  "progress_view u fmt now tdee s =
     (let calories_data = map (\<lambda>d. sum_list (map calories (eaten_on u d (rows s)))) (window now);
          meals_data = map (\<lambda>d. int (length (eaten_on u d (rows s)))) (window now);
          days_tracked = length (filter (\<lambda>c. 0 < c) calories_data);
          best = (if 0 < days_tracked
                  then closest_day tdee (daily_totals u now (rows s)) (None, None, 0)
                  else (None, None, 0))
      in if fmt = Some ''csv'' then
           CsvResponse ''weekly_progress_report.csv''
             ([CStr ''Date'', CStr ''Calories Consumed'', CStr ''Meals Eaten''] #
              map (\<lambda>(d, c, n). [CDate d, CInt c, CInt n]) (daily_totals u now (rows s)))
         else Render ''meals/progress.html''
                (Progress \<lparr>dates_json = window now, calories_json = calories_data,
                           meal_counts_json = meals_data,
                           total_calories_week = sum_list calories_data,
                           total_meals_week = sum_list meals_data,
                           avg_daily_calories =
                             (if 0 < days_tracked then sum_list calories_data div int days_tracked
                              else 0),
                           best_day = (fst (snd best), snd (snd best))\<rparr>))"
  unfolding progress_view_def
  by (simp only: Let_def window_def[symmetric] accumulate_week column_daily sum.case
        fst_conv snd_conv)

lemma window_dates:
  "window now = [date_of now - 6, date_of now - 5, date_of now - 4, date_of now - 3,
                 date_of now - 2, date_of now - 1, date_of now]"
proof -
  have "[0..<7] = [0, 1, 2, 3, 4, 5, 6::nat]" by code_simp
  then show ?thesis by (simp add: window_def)
qed

text \<open>
  Claim C5. The page of \<^verbatim>\<open>progress_view\<close> covers the seven dates that end today.
  For each of them the calorie value is the sum of the calories of the user's meals
  flagged eaten whose timestamp falls on that date, and the meal count their number;
  the weekly totals are the sums of the seven values, and the daily average is the
  calorie total divided, rounding down, by the number of dates with a positive calorie
  value, and 0 when there is no such date.
\<close>

theorem progress_view_aggregates:
  assumes "fmt \<noteq> Some ''csv''"
  shows "\<exists>ctx. progress_view u fmt now tdee s = Render ''meals/progress.html'' (Progress ctx) \<and>
           dates_json ctx =
             [date_of now - 6, date_of now - 5, date_of now - 4, date_of now - 3,
              date_of now - 2, date_of now - 1, date_of now] \<and>
           calories_json ctx =
             map (\<lambda>d. sum_list (map calories (eaten_on u d (rows s)))) (dates_json ctx) \<and>
           meal_counts_json ctx =
             map (\<lambda>d. int (length (eaten_on u d (rows s)))) (dates_json ctx) \<and>
           total_calories_week ctx = sum_list (calories_json ctx) \<and>
           total_meals_week ctx = sum_list (meal_counts_json ctx) \<and>
           avg_daily_calories ctx =
             (if length (filter (\<lambda>c. 0 < c) (calories_json ctx)) = 0 then 0
              else total_calories_week ctx div
                     int (length (filter (\<lambda>c. 0 < c) (calories_json ctx))))"
proof -
  let ?cal = "map (\<lambda>d. sum_list (map calories (eaten_on u d (rows s)))) (window now)"
  let ?cnt = "map (\<lambda>d. int (length (eaten_on u d (rows s)))) (window now)"
  let ?k = "length (filter (\<lambda>c. 0 < c) ?cal)"
  let ?best = "if 0 < ?k then closest_day tdee (daily_totals u now (rows s)) (None, None, 0)
               else (None, None, 0)"
  let ?ctx = "\<lparr>dates_json = window now, calories_json = ?cal, meal_counts_json = ?cnt,
               total_calories_week = sum_list ?cal, total_meals_week = sum_list ?cnt,
               avg_daily_calories = (if 0 < ?k then sum_list ?cal div int ?k else 0),
               best_day = (fst (snd ?best), snd (snd ?best))\<rparr>"
  have r: "progress_view u fmt now tdee s = Render ''meals/progress.html'' (Progress ?ctx)"
    using assms by (simp only: progress_view_unfold Let_def if_False)
  have d: "dates_json ?ctx =
             [date_of now - 6, date_of now - 5, date_of now - 4, date_of now - 3,
              date_of now - 2, date_of now - 1, date_of now]"
    using window_dates[of now] by simp
  have c: "calories_json ?ctx =
             map (\<lambda>d. sum_list (map calories (eaten_on u d (rows s)))) (dates_json ?ctx)"
    by simp
  have m: "meal_counts_json ?ctx =
             map (\<lambda>d. int (length (eaten_on u d (rows s)))) (dates_json ?ctx)"
    by simp
  have t: "total_calories_week ?ctx = sum_list (calories_json ?ctx)"
          "total_meals_week ?ctx = sum_list (meal_counts_json ?ctx)"
    by simp_all
  have a: "avg_daily_calories ?ctx =
             (if length (filter (\<lambda>c. 0 < c) (calories_json ?ctx)) = 0 then 0
              else total_calories_week ?ctx div
                     int (length (filter (\<lambda>c. 0 < c) (calories_json ?ctx))))"
    by simp
  show ?thesis
    by (rule exI[of _ ?ctx]) (intro conjI r d c m t a)
qed

theorem progress_view_aggregates_witness:
  "None \<noteq> Some ''csv'' \<and>
   progress_view 1 None example_now 2000 example_db =
     Render ''meals/progress.html''
       (Progress \<lparr>dates_json = [5, 6, 7, 8, 9, 10, 11],
                  calories_json = [0, 0, 0, 0, 0, 300, 0],
                  meal_counts_json = [0, 0, 0, 0, 0, 1, 0],
                  total_calories_week = 300, total_meals_week = 1,
                  avg_daily_calories = 300, best_day = (Some 10, 300)\<rparr>) \<and>
   (\<exists>ctx. progress_view 1 None example_now 2000 example_db =
            Render ''meals/progress.html'' (Progress ctx) \<and>
          calories_json ctx =
            map (\<lambda>d. sum_list (map calories (eaten_on 1 d (rows example_db)))) (dates_json ctx) \<and>
          total_calories_week ctx = sum_list (calories_json ctx) \<and>
          avg_daily_calories ctx =
             (if length (filter (\<lambda>c. 0 < c) (calories_json ctx)) = 0 then 0
              else total_calories_week ctx div
                     int (length (filter (\<lambda>c. 0 < c) (calories_json ctx)))))"
proof -
  have h: "None \<noteq> Some ''csv''" by simp
  have v: "progress_view 1 None example_now 2000 example_db =
     Render ''meals/progress.html''
       (Progress \<lparr>dates_json = [5, 6, 7, 8, 9, 10, 11],
                  calories_json = [0, 0, 0, 0, 0, 300, 0],
                  meal_counts_json = [0, 0, 0, 0, 0, 1, 0],
                  total_calories_week = 300, total_meals_week = 1,
                  avg_daily_calories = 300, best_day = (Some 10, 300)\<rparr>)"
    by code_simp
  from progress_view_aggregates[OF h, of 1 example_now 2000 example_db] obtain ctx where
    "progress_view 1 None example_now 2000 example_db =
            Render ''meals/progress.html'' (Progress ctx)"
    "calories_json ctx =
            map (\<lambda>d. sum_list (map calories (eaten_on 1 d (rows example_db)))) (dates_json ctx)"
    "total_calories_week ctx = sum_list (calories_json ctx)"
    "avg_daily_calories ctx =
             (if length (filter (\<lambda>c. 0 < c) (calories_json ctx)) = 0 then 0
              else total_calories_week ctx div
                     int (length (filter (\<lambda>c. 0 < c) (calories_json ctx))))"
    by blast
  with h v show ?thesis by blast
qed

section \<open>The CSV exports\<close>

lemma add_ingredients_set:
  "add_ingredients ingredients S = Inr S' \<Longrightarrow>
   S' = S \<union> capitalize ` set (names_in ingredients) \<and> (finite S \<longrightarrow> finite S')"
proof (induction ingredients arbitrary: S)
  case Nil
  then show ?case by (simp add: names_in_def)
next
  case (Cons i ingredients)
  from Cons.prems obtain nm where
    nm: "subscript i ''name'' = Inr (JStr nm)"
        "add_ingredients ingredients (insert (capitalize nm) S) = Inr S'"
    by (auto split: sum.splits json.splits)
  from Cons.IH[OF nm(2)] have
    "S' = insert (capitalize nm) S \<union> capitalize ` set (names_in ingredients) \<and>
     (finite (insert (capitalize nm) S) \<longrightarrow> finite S')" .
  moreover have "names_in (i # ingredients) = nm # names_in ingredients"
    using nm(1) by (simp add: names_in_def)
  ultimately show ?case by auto
qed

lemma add_recipes_set:
  "add_recipes recipes S = Inr S' \<Longrightarrow>
   S' = S \<union> capitalize ` (\<Union>r\<in>set recipes. set (ingredient_names r)) \<and>
   (finite S \<longrightarrow> finite S')"
proof (induction recipes arbitrary: S)
  case Nil
  then show ?case by simp
next
  case (Cons r recipes)
  from Cons.prems obtain ings ingredients S1 where
    st: "get r ''extendedIngredients'' (JArr []) = Inr ings" "iter ings = Inr ingredients"
        "add_ingredients ingredients S = Inr S1" "add_recipes recipes S1 = Inr S'"
    by (auto split: sum.splits)
  have n: "ingredient_names r = names_in ingredients"
    using st(1,2) by (simp add: ingredient_names_def)
  from add_ingredients_set[OF st(3)] have
    1: "S1 = S \<union> capitalize ` set (names_in ingredients)" "finite S \<longrightarrow> finite S1" by simp_all
  from Cons.IH[OF st(4)] have
    2: "S' = S1 \<union> capitalize ` (\<Union>r\<in>set recipes. set (ingredient_names r))"
       "finite S1 \<longrightarrow> finite S'" by simp_all
  from 1 2 n show ?case by auto
qed

lemma ingredients_of_set:
  assumes "ingredients_of u bulk s = Inr S"
  shows "S = capitalize ` (\<Union>r\<in>set (planned_recipes u bulk s). set (ingredient_names r)) \<and> finite S"
proof -
  let ?ids = "map spoonacular_id
              (filter (\<lambda>m. truthy (spoonacular_id m)) (filter (\<lambda>m. user m = u) (rows s)))"
  show ?thesis
  proof (cases "?ids = [] \<or> \<not> truthy (bulk ?ids)")
    case True
    then have "planned_recipes u bulk s = []" by (simp add: planned_recipes_def Let_def)
    moreover from True assms have "S = {}"
      by (auto simp: ingredients_of_def Let_def split: if_splits)
    ultimately show ?thesis by simp
  next
    case False
    with assms obtain recipes where
      r: "iter (bulk ?ids) = Inr recipes" "add_recipes recipes {} = Inr S"
      by (auto simp: ingredients_of_def Let_def split: if_splits sum.splits)
    from False r(1) have "planned_recipes u bulk s = recipes"
      by (simp add: planned_recipes_def Let_def)
    with add_recipes_set[OF r(2)] show ?thesis by simp
  qed
qed

text \<open>
  Claim C6. The grocery list in CSV form is the header row \<^verbatim>\<open>Ingredient\<close> followed
  by one row for each name in a strictly ascending list of the distinct capitalized
  ingredient names of the recipes of the user's plan. The weekly progress in CSV form
  is the header row \<^verbatim>\<open>Date\<close>, \<^verbatim>\<open>Calories Consumed\<close>, \<^verbatim>\<open>Meals Eaten\<close> followed by
  one row for each date of the seven-day window, in order, with the calories and the
  number of the user's meals eaten on that date.
\<close>

theorem csv_exports:
  "(grocery_list u (Some ''csv'') bulk s = CsvResponse name table \<longrightarrow>
      name = ''grocery_list.csv'' \<and>
      (\<exists>names. table = [CStr ''Ingredient''] # map (\<lambda>item. [CStr item]) names \<and>
         sorted names \<and> distinct names \<and>
         set names =
           capitalize ` (\<Union>r\<in>set (planned_recipes u bulk s). set (ingredient_names r)))) \<and>
   progress_view u (Some ''csv'') now tdee s =
     CsvResponse ''weekly_progress_report.csv''
       ([CStr ''Date'', CStr ''Calories Consumed'', CStr ''Meals Eaten''] #
        map (\<lambda>d. [CDate d, CInt (sum_list (map calories (eaten_on u d (rows s)))),
                   CInt (int (length (eaten_on u d (rows s))))]) (window now))"
proof (intro conjI impI)
  assume a: "grocery_list u (Some ''csv'') bulk s = CsvResponse name table"
  then obtain S where S: "ingredients_of u bulk s = Inr S"
    by (cases "ingredients_of u bulk s") (auto simp: grocery_list_def)
  from a S show "name = ''grocery_list.csv''" by (simp add: grocery_list_def)
  from ingredients_of_set[OF S] have
    fs: "S = capitalize ` (\<Union>r\<in>set (planned_recipes u bulk s). set (ingredient_names r))"
        "finite S" by simp_all
  have t: "table = [CStr ''Ingredient''] # map (\<lambda>item. [CStr item]) (sorted_list_of_set S)"
    using a S by (simp add: grocery_list_def)
  have "sorted (sorted_list_of_set S)" "distinct (sorted_list_of_set S)"
       "set (sorted_list_of_set S) = S"
    using fs(2) by simp_all
  with t fs(1) show "\<exists>names. table = [CStr ''Ingredient''] # map (\<lambda>item. [CStr item]) names \<and>
         sorted names \<and> distinct names \<and>
         set names =
           capitalize ` (\<Union>r\<in>set (planned_recipes u bulk s). set (ingredient_names r))"
    by blast
next
  show "progress_view u (Some ''csv'') now tdee s =
     CsvResponse ''weekly_progress_report.csv''
       ([CStr ''Date'', CStr ''Calories Consumed'', CStr ''Meals Eaten''] #
        map (\<lambda>d. [CDate d, CInt (sum_list (map calories (eaten_on u d (rows s)))),
                   CInt (int (length (eaten_on u d (rows s))))]) (window now))"
    by (simp add: progress_view_unfold Let_def daily_totals_def comp_def)
qed

theorem csv_exports_witness:
  "grocery_list 1 (Some ''csv'') example_ingredients example_db =
     CsvResponse ''grocery_list.csv'' [[CStr ''Ingredient''], [CStr ''Apple''], [CStr ''Salt'']] \<and>
   (\<exists>names. [[CStr ''Ingredient''], [CStr ''Apple''], [CStr ''Salt'']] =
              [CStr ''Ingredient''] # map (\<lambda>item. [CStr item]) names \<and>
         sorted names \<and> distinct names \<and>
         set names =
           capitalize ` (\<Union>r\<in>set (planned_recipes 1 example_ingredients example_db).
                           set (ingredient_names r))) \<and>
   progress_view 1 (Some ''csv'') example_now 2000 example_db =
     CsvResponse ''weekly_progress_report.csv''
       ([CStr ''Date'', CStr ''Calories Consumed'', CStr ''Meals Eaten''] #
        map (\<lambda>d. [CDate d, CInt (sum_list (map calories (eaten_on 1 d (rows example_db)))),
                   CInt (int (length (eaten_on 1 d (rows example_db))))]) (window example_now))"
proof -
  have h: "grocery_list 1 (Some ''csv'') example_ingredients example_db =
     CsvResponse ''grocery_list.csv'' [[CStr ''Ingredient''], [CStr ''Apple''], [CStr ''Salt'']]"
    by code_simp
  from csv_exports[of 1 example_ingredients example_db "''grocery_list.csv''"
      "[[CStr ''Ingredient''], [CStr ''Apple''], [CStr ''Salt'']]" example_now 2000] h
  show ?thesis by simp
qed

end
